theory Spec2Isabelle
  imports Complex_Main
begin

section \<open>Data model\<close>

text \<open>
  The tables of the application (\<^verbatim>\<open>src/models\<close>) as records.  A UUID primary key is an
  opaque identifier, modelled as a natural number.  Nullable integer columns are
  \<open>int option\<close>.  A Python float is the real number it holds.
\<close>

type_synonym uuid = nat

record Exercise =
  exercise_id :: uuid
  exercise_plan_id :: uuid
  exercise_name :: string
  duration_minutes :: "int option"
  repetitions :: "int option"
  order_index :: int

record ExerciseExecution =
  ee_exercise_id :: uuid
  completed :: bool
  actual_duration_minutes :: "int option"
  actual_repetitions :: "int option"

section \<open>Float arithmetic\<close>

text \<open>
  The completion rates are Python floats, that is IEEE 754 double-precision numbers: the
  result of \<^verbatim>\<open>/\<close>, of \<^verbatim>\<open>*\<close> and of each addition inside \<^verbatim>\<open>sum\<close> is rounded to the nearest
  double, ties to the even significand, and \<^verbatim>\<open>round(x, 1)\<close> is the double nearest to the
  one-decimal number nearest to \<open>x\<close>.  The calculator is written over a record of these
  four operations, so that what is proved for every such record holds of the arithmetic
  the program runs on; \<open>double_arith\<close> below is that arithmetic, \<open>exact_arith\<close> the real
  numbers without rounding.
\<close>

record arith =
  fl_div :: "real \<Rightarrow> real \<Rightarrow> real"
  fl_mul :: "real \<Rightarrow> real \<Rightarrow> real"
  fl_sum :: "real list \<Rightarrow> real"
  fl_round1 :: "real \<Rightarrow> real"

text \<open>Rounding to the nearest integer, a tie going to the even one.\<close>

definition round_half_even :: "real \<Rightarrow> int" where
  "round_half_even x =
     (let f = \<lfloor>x\<rfloor>; d = x - of_int f
      in if d < 1 / 2 then f else if 1 / 2 < d then f + 1 else if even f then f else f + 1)"

text \<open>
  A positive number is brought between \<open>2^52\<close> and \<open>2^53\<close> by halving or doubling, the
  unit \<open>u\<close> of its last binary place doubling or halving along; \<open>n\<close> bounds the number of
  steps.  The exponent of a double has 11 bits: 2200 steps reach every double, and the
  rates computed here lie far inside that range, where no overflow or loss of precision
  near zero occurs.
\<close>

function scale :: "nat \<Rightarrow> real \<Rightarrow> real \<Rightarrow> real \<times> real" where
  "scale n x u =
     (if n = 0 then (x, u)
      else if 9007199254740992 \<le> x then scale (n - 1) (x / 2) (u * 2)
      else if x < 4503599627370496 then scale (n - 1) (x * 2) (u / 2)
      else (x, u))"
  by pat_completeness auto
termination
  by (relation "measure (\<lambda>(n, x, u). n)") auto

declare scale.simps [simp del]

text \<open>The double nearest to a real number: a significand of 53 bits, ties to even.\<close>

definition to_double :: "real \<Rightarrow> real" where
  "to_double x =
     (if x = 0 then 0
      else let (m, u) = scale 2200 \<bar>x\<bar> 1
           in sgn x * of_int (round_half_even m) * u)"

definition double_div :: "real \<Rightarrow> real \<Rightarrow> real" where
  "double_div a b = to_double (a / b)"

definition double_mul :: "real \<Rightarrow> real \<Rightarrow> real" where
  "double_mul a b = to_double (a * b)"

text \<open>
  \<^verbatim>\<open>sum\<close>: from 0, one rounded addition for each element, left to right.  (Python 3.12
  and later add the accumulated rounding error back at the end; for a list of one or two
  numbers the result is the same.)
\<close>

definition double_sum :: "real list \<Rightarrow> real" where
  "double_sum xs = foldl (\<lambda>acc x. to_double (acc + x)) 0 xs"

text \<open>\<^verbatim>\<open>round(x, 1)\<close>\<close>

definition py_round1 :: "real \<Rightarrow> real" where
  "py_round1 x = to_double (of_int (round_half_even (x * 10)) / 10)"

definition double_arith :: arith where
  "double_arith =
     \<lparr> fl_div = double_div, fl_mul = double_mul, fl_sum = double_sum, fl_round1 = py_round1 \<rparr>"

definition exact_arith :: arith where
  "exact_arith =
     \<lparr> fl_div = (\<lambda>a b. a / b), fl_mul = (\<lambda>a b. a * b), fl_sum = sum_list,
       fl_round1 = (\<lambda>x. x) \<rparr>"

section \<open>Execution completion calculator\<close>

text \<open>
  Truth value of an \<^verbatim>\<open>Optional[int]\<close> in a Python condition: \<^verbatim>\<open>None\<close> and \<^verbatim>\<open>0\<close> are false.
\<close>

definition truthy :: "int option \<Rightarrow> bool" where
  "truthy v = (case v of None \<Rightarrow> False | Some n \<Rightarrow> n \<noteq> 0)"

text \<open>
  \<^verbatim>\<open>next((e for e in plan.exercises if e.id == ex_exec.exercise_id), None)\<close>
\<close>

definition find_exercise :: "Exercise list \<Rightarrow> uuid \<Rightarrow> Exercise option" where
  "find_exercise exercises eid = find (\<lambda>e. exercise_id e = eid) exercises"

text \<open>\<^verbatim>\<open>min((actual / planned) * 100, 100)\<close>\<close>

definition capped_rate :: "arith \<Rightarrow> int \<Rightarrow> int \<Rightarrow> real" where
  "capped_rate ar actual planned =
     min (fl_mul ar (fl_div ar (of_int actual) (of_int planned)) 100) 100"

text \<open>
  The value appended to the list of rates for one exercise execution: the body of the
  inner loop of \<^verbatim>\<open>PlanExecutionService.get_plan_executions\<close> (lines 164-188), which
  \<^verbatim>\<open>PlanMemberService.get_plan_leaderboard\<close> repeats (lines 193-208).
\<close>

definition exercise_rate :: "arith \<Rightarrow> Exercise list \<Rightarrow> ExerciseExecution \<Rightarrow> real" where
  "exercise_rate ar exercises ex_exec =
     (if \<not> completed ex_exec then 0
      else case find_exercise exercises (ee_exercise_id ex_exec) of
        Some exercise \<Rightarrow>
          (if truthy (duration_minutes exercise) \<and> truthy (actual_duration_minutes ex_exec)
           then capped_rate ar (the (actual_duration_minutes ex_exec))
                  (the (duration_minutes exercise))
           else if truthy (repetitions exercise) \<and> truthy (actual_repetitions ex_exec)
           then capped_rate ar (the (actual_repetitions ex_exec)) (the (repetitions exercise))
           else 100)
      | None \<Rightarrow> 100)"

text \<open>
  The inner loop of \<^verbatim>\<open>get_plan_executions\<close>: it walks the exercise executions, appending
  one rate each to \<^verbatim>\<open>exercise_completion_rates\<close> and counting the completed ones.
\<close>

fun rates_loop ::
  "arith \<Rightarrow> Exercise list \<Rightarrow> ExerciseExecution list \<Rightarrow> real list \<times> nat \<Rightarrow> real list \<times> nat" where
  "rates_loop ar exercises [] acc = acc"
| "rates_loop ar exercises (ex_exec # rest) (exercise_completion_rates, completed_count) =
     rates_loop ar exercises rest
       (exercise_completion_rates @ [exercise_rate ar exercises ex_exec],
        (if completed ex_exec then completed_count + 1 else completed_count))"

text \<open>
  Lines 190-194: \<^verbatim>\<open>sum(rates) / len(rates) if rates else 0\<close>.
\<close>

definition average_or_zero :: "arith \<Rightarrow> real list \<Rightarrow> real" where
  "average_or_zero ar rates =
     (if rates \<noteq> [] then fl_div ar (fl_sum ar rates) (of_nat (length rates)) else 0)"

definition completion_rate :: "arith \<Rightarrow> Exercise list \<Rightarrow> ExerciseExecution list \<Rightarrow> real" where
  "completion_rate ar exercises exercise_executions =
     average_or_zero ar (fst (rates_loop ar exercises exercise_executions ([], 0)))"

text \<open>
  The summary built for one execution; the reported rate is \<^verbatim>\<open>round(completion_rate, 1)\<close>.
\<close>

record PlanExecutionSummary =
  total_exercises :: nat
  completed_exercises :: nat
  summary_completion_rate :: real

definition create_summary ::
  "arith \<Rightarrow> Exercise list \<Rightarrow> ExerciseExecution list \<Rightarrow> PlanExecutionSummary" where
  "create_summary ar exercises exercise_executions =
     (let (rates, completed_count) = rates_loop ar exercises exercise_executions ([], 0)
      in \<lparr> total_exercises = length exercise_executions,
           completed_exercises = completed_count,
           summary_completion_rate = fl_round1 ar (average_or_zero ar rates) \<rparr>)"

text \<open>
  The claim's own wording of the overall rate, for comparison with the code: the
  arithmetic mean of a non-empty list of rates, in the real numbers.
\<close>

definition arithmetic_mean :: "real list \<Rightarrow> real" where
  "arithmetic_mean rates = sum_list rates / of_nat (length rates)"

section \<open>Tables\<close>

text \<open>
  The remaining tables.  A timestamp or a date is a number.  The rows of a table are a
  list; the exercise executions of a plan execution are the rows its relationship loads.
\<close>

record User =
  user_id :: uuid
  email :: string
  full_name :: "string option"

record FitnessPlan =
  plan_id :: uuid
  plan_user_id :: uuid
  plan_name :: string
  plan_description :: "string option"
  deleted_at :: "nat option"

record PlanMember =
  member_id :: uuid
  member_plan_id :: uuid
  member_user_id :: uuid
  invited_by :: "uuid option"

record PlanExecution =
  execution_id :: uuid
  execution_plan_id :: uuid
  execution_user_id :: uuid
  execution_date :: int
  exercise_executions :: "ExerciseExecution list"

datatype ReminderFrequency = DAILY | WEEKLY | CUSTOM

record time_of_day =
  hour :: nat
  minute :: nat
  second :: nat

record Reminder =
  reminder_id :: uuid
  reminder_plan_id :: uuid
  reminder_time :: time_of_day
  frequency :: ReminderFrequency
  days_of_week :: "int list option"
  is_enabled :: bool

text \<open>
  The exceptions of \<^verbatim>\<open>error_handler.py\<close>, with their detail message; \<open>AppException\<close>
  carries its code and status as well.  \<open>NoResultFound\<close> is what \<^verbatim>\<open>scalar_one()\<close>
  raises on no row, \<open>AttributeError\<close> what reading a field of \<^verbatim>\<open>None\<close> raises, and
  \<open>ValidationError\<close> what a request schema raises.
\<close>

datatype error =
    NotFoundException string
  | BusinessRuleViolationException string
  | AppException string string nat
  | ValidationError string
  | NoResultFound
  | AttributeError

text \<open>
  The state the services work on: the tables, the jobs registered with the scheduler
  (a job id \<^verbatim>\<open>reminder_{plan_id}_{reminder_id}\<close> is the pair of the two ids), and the
  next identifier that \<^verbatim>\<open>uuid.uuid4\<close> hands out.  Under the primary-key and unique
  constraints of the schema at most one row matches a lookup by key, so
  \<^verbatim>\<open>scalar_one_or_none()\<close> is the first matching row.
\<close>

record CronTrigger =
  day_of_week :: "string option"
  trigger_hour :: nat
  trigger_minute :: nat
  trigger_second :: nat

record state =
  users :: "User list"
  plans :: "FitnessPlan list"
  exercises :: "Exercise list"
  reminders :: "Reminder list"
  members :: "PlanMember list"
  executions :: "PlanExecution list"
  jobs :: "((uuid \<times> uuid) \<times> CronTrigger) list"
  next_uuid :: uuid

section \<open>Plan service\<close>

text \<open>
  \<^verbatim>\<open>FitnessPlan.id.in_(select(PlanMember.plan_id).where(PlanMember.user_id == user_id))\<close>
\<close>

definition is_member :: "state \<Rightarrow> uuid \<Rightarrow> uuid \<Rightarrow> bool" where
  "is_member st uid pid = (pid \<in> set (map member_plan_id (filter (\<lambda>m. member_user_id m = uid) (members st))))"

text \<open>\<^verbatim>\<open>PlanService.get_plan_by_id\<close>: owner or member, and not soft-deleted.\<close>

definition get_plan_by_id :: "state \<Rightarrow> uuid \<Rightarrow> uuid \<Rightarrow> error + FitnessPlan" where
  "get_plan_by_id st uid pid =
     (case find (\<lambda>p. plan_id p = pid \<and> (plan_user_id p = uid \<or> is_member st uid (plan_id p))
                     \<and> deleted_at p = None) (plans st) of
        None \<Rightarrow> Inl (NotFoundException ''Fitness plan not found'')
      | Some plan \<Rightarrow> Inr plan)"

text \<open>
  The request schemas.  In an update a field that the request leaves unset is \<open>None\<close>
  (\<^verbatim>\<open>model_dump(exclude_unset=True)\<close> drops it); a nullable field that is set carries its
  new value, which may be null.
\<close>

record ExerciseCreate =
  ec_name :: string
  ec_duration_minutes :: "int option"
  ec_repetitions :: "int option"
  ec_order_index :: int

record FitnessPlanCreate =
  pc_name :: string
  pc_description :: "string option"
  pc_exercises :: "ExerciseCreate list"

record FitnessPlanUpdate =
  pu_name :: "string option"
  pu_description :: "string option option"

record ExerciseUpdate =
  eu_name :: "string option"
  eu_duration_minutes :: "int option option"
  eu_repetitions :: "int option option"
  eu_order_index :: "int option"

text \<open>
  The validators of \<^verbatim>\<open>plan_schemas.py\<close> that the request passes before the service runs:
  \<^verbatim>\<open>check_duration_or_reps\<close> and \<^verbatim>\<open>validate_exercises_not_empty\<close>.  The length and
  range bounds of the fields only reject further requests and are left out.
\<close>

definition check_duration_or_reps :: "ExerciseCreate \<Rightarrow> error + ExerciseCreate" where
  "check_duration_or_reps e =
     (if ec_duration_minutes e = None \<and> ec_repetitions e = None
      then Inl (ValidationError ''Either duration_minutes or repetitions must be provided'')
      else Inr e)"

definition validate_exercises_not_empty :: "ExerciseCreate list \<Rightarrow> error + ExerciseCreate list" where
  "validate_exercises_not_empty v =
     (if v = [] \<or> length v = 0
      then Inl (ValidationError ''Plan must contain at least one exercise'')
      else Inr v)"

fun validate_each :: "ExerciseCreate list \<Rightarrow> error + ExerciseCreate list" where
  "validate_each [] = Inr []"
| "validate_each (e # es) =
     (case check_duration_or_reps e of
        Inl err \<Rightarrow> Inl err
      | Inr e' \<Rightarrow> (case validate_each es of Inl err \<Rightarrow> Inl err | Inr es' \<Rightarrow> Inr (e' # es')))"

definition validate_FitnessPlanCreate :: "FitnessPlanCreate \<Rightarrow> error + FitnessPlanCreate" where
  "validate_FitnessPlanCreate plan_data =
     (case validate_each (pc_exercises plan_data) of
        Inl err \<Rightarrow> Inl err
      | Inr es \<Rightarrow>
          (case validate_exercises_not_empty es of
             Inl err \<Rightarrow> Inl err
           | Inr es' \<Rightarrow> Inr (plan_data\<lparr>pc_exercises := es'\<rparr>)))"

text \<open>
  \<^verbatim>\<open>PlanService.create_plan\<close>: the plan row, then one exercise row for each entry of
  \<^verbatim>\<open>plan_data.exercises\<close>, each with a fresh id.
\<close>

definition new_exercise :: "uuid \<Rightarrow> uuid \<Rightarrow> ExerciseCreate \<Rightarrow> Exercise" where
  "new_exercise eid pid exercise_data =
     \<lparr> exercise_id = eid, exercise_plan_id = pid, exercise_name = ec_name exercise_data,
       duration_minutes = ec_duration_minutes exercise_data,
       repetitions = ec_repetitions exercise_data,
       order_index = ec_order_index exercise_data \<rparr>"

fun add_exercises :: "state \<Rightarrow> uuid \<Rightarrow> ExerciseCreate list \<Rightarrow> state" where
  "add_exercises st pid [] = st"
| "add_exercises st pid (exercise_data # rest) =
     add_exercises
       (st\<lparr>exercises := exercises st @ [new_exercise (next_uuid st) pid exercise_data],
           next_uuid := next_uuid st + 1\<rparr>)
       pid rest"

definition create_plan :: "state \<Rightarrow> uuid \<Rightarrow> FitnessPlanCreate \<Rightarrow> state" where
  "create_plan st uid plan_data =
     (let pid = next_uuid st;
          plan = \<lparr> plan_id = pid, plan_user_id = uid, plan_name = pc_name plan_data,
                   plan_description = pc_description plan_data, deleted_at = None \<rparr>;
          st1 = st\<lparr>plans := plans st @ [plan], next_uuid := pid + 1\<rparr>
      in add_exercises st1 pid (pc_exercises plan_data))"

text \<open>The route \<^verbatim>\<open>create_fitness_plan\<close>: the schema validates, then the service runs.\<close>

definition create_fitness_plan :: "state \<Rightarrow> uuid \<Rightarrow> FitnessPlanCreate \<Rightarrow> error + state" where
  "create_fitness_plan st uid plan_data =
     (case validate_FitnessPlanCreate plan_data of
        Inl err \<Rightarrow> Inl err
      | Inr v \<Rightarrow> Inr (create_plan st uid v))"

text \<open>
  Writing back a row that was fetched and changed: the fetched row is replaced by the
  changed one (the update is keyed on the primary key, which identifies the row).
\<close>

definition replace_row :: "'a \<Rightarrow> 'a \<Rightarrow> 'a list \<Rightarrow> 'a list" where
  "replace_row old new rows = map (\<lambda>x. if x = old then new else x) rows"

definition apply_plan_update :: "FitnessPlanUpdate \<Rightarrow> FitnessPlan \<Rightarrow> FitnessPlan" where
  "apply_plan_update plan_data plan =
     (let p1 = (case pu_name plan_data of None \<Rightarrow> plan | Some n \<Rightarrow> plan\<lparr>plan_name := n\<rparr>)
      in (case pu_description plan_data of None \<Rightarrow> p1 | Some d \<Rightarrow> p1\<lparr>plan_description := d\<rparr>))"

text \<open>\<^verbatim>\<open>PlanService.update_plan\<close>: fetches through \<^verbatim>\<open>get_plan_by_id\<close>.\<close>

definition update_plan :: "state \<Rightarrow> uuid \<Rightarrow> uuid \<Rightarrow> FitnessPlanUpdate \<Rightarrow> error + state" where
  "update_plan st uid pid plan_data =
     (case get_plan_by_id st uid pid of
        Inl err \<Rightarrow> Inl err
      | Inr plan \<Rightarrow> Inr (st\<lparr>plans := replace_row plan (apply_plan_update plan_data plan) (plans st)\<rparr>))"

text \<open>
  \<^verbatim>\<open>PlanService.delete_plan\<close>: fetches through \<^verbatim>\<open>get_plan_by_id\<close>, removes the jobs of the
  plan's reminders when a scheduler is passed, and sets \<^verbatim>\<open>deleted_at\<close> to the current time.
\<close>

definition remove_job :: "uuid \<times> uuid \<Rightarrow> ((uuid \<times> uuid) \<times> CronTrigger) list \<Rightarrow> ((uuid \<times> uuid) \<times> CronTrigger) list" where
  "remove_job job_id js = filter (\<lambda>j. fst j \<noteq> job_id) js"

fun cancel_reminder_jobs :: "uuid \<Rightarrow> Reminder list \<Rightarrow> ((uuid \<times> uuid) \<times> CronTrigger) list \<Rightarrow> ((uuid \<times> uuid) \<times> CronTrigger) list" where
  "cancel_reminder_jobs pid [] js = js"
| "cancel_reminder_jobs pid (reminder # rest) js =
     cancel_reminder_jobs pid rest (remove_job (pid, reminder_id reminder) js)"

definition delete_plan :: "state \<Rightarrow> uuid \<Rightarrow> uuid \<Rightarrow> bool \<Rightarrow> nat \<Rightarrow> error + state" where
  "delete_plan st uid pid scheduler now =
     (case get_plan_by_id st uid pid of
        Inl err \<Rightarrow> Inl err
      | Inr plan \<Rightarrow>
          (let plan_reminders = filter (\<lambda>r. reminder_plan_id r = plan_id plan) (reminders st);
               js = (if scheduler \<and> plan_reminders \<noteq> []
                     then cancel_reminder_jobs pid plan_reminders (jobs st) else jobs st)
           in Inr (st\<lparr>plans := replace_row plan (plan\<lparr>deleted_at := Some now\<rparr>) (plans st), jobs := js\<rparr>)))"

section \<open>Exercise service\<close>

text \<open>
  The ownership check of the exercise and reminder services:
  \<^verbatim>\<open>FitnessPlan.id == plan_id, FitnessPlan.user_id == user_id, FitnessPlan.deleted_at.is_(None)\<close>.
\<close>

definition owned_plan :: "state \<Rightarrow> uuid \<Rightarrow> uuid \<Rightarrow> FitnessPlan option" where
  "owned_plan st uid pid =
     find (\<lambda>p. plan_id p = pid \<and> plan_user_id p = uid \<and> deleted_at p = None) (plans st)"

definition add_exercise :: "state \<Rightarrow> uuid \<Rightarrow> uuid \<Rightarrow> ExerciseCreate \<Rightarrow> error + state" where
  "add_exercise st uid pid exercise_data =
     (case owned_plan st uid pid of
        None \<Rightarrow> Inl (NotFoundException ''Fitness plan not found'')
      | Some plan \<Rightarrow>
          Inr (st\<lparr>exercises := exercises st @ [new_exercise (next_uuid st) pid exercise_data],
                  next_uuid := next_uuid st + 1\<rparr>))"

text \<open>
  The query shared by \<^verbatim>\<open>update_exercise\<close>, \<^verbatim>\<open>delete_exercise\<close> and
  \<^verbatim>\<open>get_exercise_by_id\<close>: the exercise joined with its plan, which the user must own.
\<close>

definition fetch_exercise :: "state \<Rightarrow> uuid \<Rightarrow> uuid \<Rightarrow> uuid \<Rightarrow> Exercise option" where
  "fetch_exercise st uid pid eid =
     find (\<lambda>e. exercise_id e = eid \<and> exercise_plan_id e = pid \<and>
                (\<exists>p \<in> set (plans st). plan_id p = exercise_plan_id e \<and>
                     plan_user_id p = uid \<and> deleted_at p = None))
          (exercises st)"

definition apply_exercise_update :: "ExerciseUpdate \<Rightarrow> Exercise \<Rightarrow> Exercise" where
  "apply_exercise_update exercise_data e =
     (let e1 = (case eu_name exercise_data of None \<Rightarrow> e | Some n \<Rightarrow> e\<lparr>exercise_name := n\<rparr>);
          e2 = (case eu_duration_minutes exercise_data of None \<Rightarrow> e1 | Some d \<Rightarrow> e1\<lparr>duration_minutes := d\<rparr>);
          e3 = (case eu_repetitions exercise_data of None \<Rightarrow> e2 | Some r \<Rightarrow> e2\<lparr>repetitions := r\<rparr>)
      in (case eu_order_index exercise_data of None \<Rightarrow> e3 | Some i \<Rightarrow> e3\<lparr>order_index := i\<rparr>))"

definition update_exercise ::
  "state \<Rightarrow> uuid \<Rightarrow> uuid \<Rightarrow> uuid \<Rightarrow> ExerciseUpdate \<Rightarrow> error + state" where
  "update_exercise st uid pid eid exercise_data =
     (case fetch_exercise st uid pid eid of
        None \<Rightarrow> Inl (NotFoundException ''Exercise not found'')
      | Some exercise \<Rightarrow>
          Inr (st\<lparr>exercises := replace_row exercise (apply_exercise_update exercise_data exercise)
                 (exercises st)\<rparr>))"

text \<open>
  \<^verbatim>\<open>ExerciseService.delete_exercise\<close>: the ownership query first, then the count of the
  plan's exercises, then the deletion of the fetched row.
\<close>

definition exercise_count :: "state \<Rightarrow> uuid \<Rightarrow> nat" where
  "exercise_count st pid = length (filter (\<lambda>e. exercise_plan_id e = pid) (exercises st))"

definition delete_exercise :: "state \<Rightarrow> uuid \<Rightarrow> uuid \<Rightarrow> uuid \<Rightarrow> error + state" where
  "delete_exercise st uid pid eid =
     (case fetch_exercise st uid pid eid of
        None \<Rightarrow> Inl (NotFoundException ''Exercise not found'')
      | Some exercise \<Rightarrow>
          (if exercise_count st pid \<le> 1
           then Inl (BusinessRuleViolationException
             ''Cannot delete the last exercise from a plan. A plan must have at least one exercise.'')
           else Inr (st\<lparr>exercises := remove1 exercise (exercises st)\<rparr>)))"

section \<open>Reminder schedule translator\<close>

text \<open>Python's \<^verbatim>\<open>str\<close> of an integer and \<^verbatim>\<open>",".join\<close>.\<close>

definition digit_char :: "nat \<Rightarrow> char" where
  "digit_char n = ''0123456789'' ! n"

function str_nat :: "nat \<Rightarrow> string" where
  "str_nat n = (if n < 10 then [digit_char n] else str_nat (n div 10) @ [digit_char (n mod 10)])"
  by pat_completeness auto
termination
  by (relation "measure id") auto

declare str_nat.simps [simp del]

definition str_int :: "int \<Rightarrow> string" where
  "str_int i = (if i < 0 then CHR ''-'' # str_nat (nat (- i)) else str_nat (nat i))"

fun join :: "string \<Rightarrow> string list \<Rightarrow> string" where
  "join sep [] = []"
| "join sep [x] = x"
| "join sep (x # y # ys) = x @ sep @ join sep (y # ys)"

text \<open>
  Truth value of an \<^verbatim>\<open>Optional[List[int]]\<close>: \<^verbatim>\<open>None\<close> and the empty list are false.
\<close>

definition list_truthy :: "int list option \<Rightarrow> bool" where
  "list_truthy v = (case v of None \<Rightarrow> False | Some xs \<Rightarrow> xs \<noteq> [])"

text \<open>
  \<^verbatim>\<open>",".join(str((day - 1) % 7) for day in days_of_week)\<close>; \<open>mod\<close> on \<open>int\<close> has the sign
  of the divisor, as Python's \<^verbatim>\<open>%\<close> has.
\<close>

definition cron_days :: "int list \<Rightarrow> string" where
  "cron_days ds = join '','' (map (\<lambda>day. str_int ((day - 1) mod 7)) ds)"

definition daily_trigger :: "time_of_day \<Rightarrow> CronTrigger" where
  "daily_trigger t =
     \<lparr> day_of_week = None, trigger_hour = hour t, trigger_minute = minute t,
       trigger_second = second t \<rparr>"

definition weekday_trigger :: "string \<Rightarrow> time_of_day \<Rightarrow> CronTrigger" where
  "weekday_trigger ds t =
     \<lparr> day_of_week = Some ds, trigger_hour = hour t, trigger_minute = minute t,
       trigger_second = second t \<rparr>"

text \<open>\<^verbatim>\<open>ReminderService._create_cron_trigger\<close>\<close>

definition create_cron_trigger ::
  "time_of_day \<Rightarrow> ReminderFrequency \<Rightarrow> int list option \<Rightarrow> CronTrigger" where
  "create_cron_trigger t freq days =
     (if freq = DAILY then daily_trigger t
      else if freq = WEEKLY \<and> list_truthy days then weekday_trigger (cron_days (the days)) t
      else if freq = CUSTOM \<and> list_truthy days then weekday_trigger (cron_days (the days)) t
      else daily_trigger t)"

text \<open>
  How the trigger is read.  The application numbers weekdays 1 (Monday) to 7 (Sunday)
  (\<^verbatim>\<open>reminder_schemas.py\<close>); the external scheduler numbers them 0 (Monday) to 6 (Sunday)
  and takes \<^verbatim>\<open>day_of_week\<close> as a comma-separated list, an absent \<^verbatim>\<open>day_of_week\<close> meaning
  every day.  The scheduler is a library outside the repository: the three definitions
  below state its documented convention and nothing else of it.
\<close>

datatype weekday = Mon | Tue | Wed | Thu | Fri | Sat | Sun

definition reminder_weekday :: "int \<Rightarrow> weekday option" where
  "reminder_weekday d =
     (if 1 \<le> d \<and> d \<le> 7 then Some ([Mon, Tue, Wed, Thu, Fri, Sat, Sun] ! nat (d - 1)) else None)"

definition scheduler_weekday :: "nat \<Rightarrow> weekday option" where
  "scheduler_weekday n = (if n < 7 then Some ([Mon, Tue, Wed, Thu, Fri, Sat, Sun] ! n) else None)"

fun split_on :: "char \<Rightarrow> string \<Rightarrow> string list" where
  "split_on c [] = [[]]"
| "split_on c (x # xs) =
     (if x = c then [] # split_on c xs
      else (case split_on c xs of [] \<Rightarrow> [[x]] | w # ws \<Rightarrow> (x # w) # ws))"

definition digit_value :: "char \<Rightarrow> nat option" where
  "digit_value ch =
     (if ch = CHR ''0'' then Some 0 else if ch = CHR ''1'' then Some 1
      else if ch = CHR ''2'' then Some 2 else if ch = CHR ''3'' then Some 3
      else if ch = CHR ''4'' then Some 4 else if ch = CHR ''5'' then Some 5
      else if ch = CHR ''6'' then Some 6 else if ch = CHR ''7'' then Some 7
      else if ch = CHR ''8'' then Some 8 else if ch = CHR ''9'' then Some 9
      else None)"

fun parse_digits :: "nat \<Rightarrow> string \<Rightarrow> nat option" where
  "parse_digits acc [] = Some acc"
| "parse_digits acc (ch # rest) =
     (case digit_value ch of None \<Rightarrow> None | Some v \<Rightarrow> parse_digits (acc * 10 + v) rest)"

definition parse_nat :: "string \<Rightarrow> nat option" where
  "parse_nat s = (if s = [] then None else parse_digits 0 s)"

definition trigger_weekdays :: "CronTrigger \<Rightarrow> weekday set" where
  "trigger_weekdays trigger =
     (case day_of_week trigger of
        None \<Rightarrow> UNIV
      | Some expr \<Rightarrow>
          set (List.map_filter
                 (\<lambda>part. case parse_nat part of None \<Rightarrow> None | Some n \<Rightarrow> scheduler_weekday n)
                 (split_on CHR '','' expr)))"

section \<open>Reminder service\<close>

record ReminderCreate =
  rc_reminder_time :: time_of_day
  rc_frequency :: ReminderFrequency
  rc_days_of_week :: "int list option"
  rc_is_enabled :: bool

record ReminderUpdate =
  ru_reminder_time :: "time_of_day option"
  ru_frequency :: "ReminderFrequency option"
  ru_days_of_week :: "int list option option"
  ru_is_enabled :: "bool option"

text \<open>
  \<^verbatim>\<open>_schedule_job\<close>: \<^verbatim>\<open>add_job(..., id=job_id, replace_existing=True)\<close> with the trigger of
  the reminder's settings.
\<close>

definition schedule_job ::
  "Reminder \<Rightarrow> FitnessPlan \<Rightarrow> ((uuid \<times> uuid) \<times> CronTrigger) list \<Rightarrow> ((uuid \<times> uuid) \<times> CronTrigger) list" where
  "schedule_job reminder plan js =
     (let job_id = (plan_id plan, reminder_id reminder);
          trigger = create_cron_trigger (reminder_time reminder) (frequency reminder)
                      (days_of_week reminder)
      in remove_job job_id js @ [(job_id, trigger)])"

definition create_reminder ::
  "state \<Rightarrow> bool \<Rightarrow> uuid \<Rightarrow> uuid \<Rightarrow> ReminderCreate \<Rightarrow> error + state" where
  "create_reminder st scheduler uid pid reminder_data =
     (case owned_plan st uid pid of
        None \<Rightarrow> Inl (NotFoundException ''Fitness plan not found'')
      | Some plan \<Rightarrow>
          (let reminder = \<lparr> reminder_id = next_uuid st, reminder_plan_id = pid,
                            reminder_time = rc_reminder_time reminder_data,
                            frequency = rc_frequency reminder_data,
                            days_of_week = rc_days_of_week reminder_data,
                            is_enabled = rc_is_enabled reminder_data \<rparr>;
               js = (if is_enabled reminder \<and> scheduler
                     then schedule_job reminder plan (jobs st) else jobs st)
           in Inr (st\<lparr>reminders := reminders st @ [reminder], jobs := js,
                      next_uuid := next_uuid st + 1\<rparr>)))"

definition fetch_reminder :: "state \<Rightarrow> uuid \<Rightarrow> uuid \<Rightarrow> uuid \<Rightarrow> Reminder option" where
  "fetch_reminder st uid pid rid =
     find (\<lambda>r. reminder_id r = rid \<and> reminder_plan_id r = pid \<and>
                (\<exists>p \<in> set (plans st). plan_id p = reminder_plan_id r \<and>
                     plan_user_id p = uid \<and> deleted_at p = None))
          (reminders st)"

definition apply_reminder_update :: "ReminderUpdate \<Rightarrow> Reminder \<Rightarrow> Reminder" where
  "apply_reminder_update reminder_data r =
     (let r1 = (case ru_reminder_time reminder_data of None \<Rightarrow> r | Some t \<Rightarrow> r\<lparr>reminder_time := t\<rparr>);
          r2 = (case ru_frequency reminder_data of None \<Rightarrow> r1 | Some f \<Rightarrow> r1\<lparr>frequency := f\<rparr>);
          r3 = (case ru_days_of_week reminder_data of None \<Rightarrow> r2 | Some d \<Rightarrow> r2\<lparr>days_of_week := d\<rparr>)
      in (case ru_is_enabled reminder_data of None \<Rightarrow> r3 | Some b \<Rightarrow> r3\<lparr>is_enabled := b\<rparr>))"

definition update_reminder ::
  "state \<Rightarrow> bool \<Rightarrow> uuid \<Rightarrow> uuid \<Rightarrow> uuid \<Rightarrow> ReminderUpdate \<Rightarrow> error + state" where
  "update_reminder st scheduler uid pid rid reminder_data =
     (case fetch_reminder st uid pid rid of
        None \<Rightarrow> Inl (NotFoundException ''Reminder not found'')
      | Some fetched \<Rightarrow>
          (let reminder = apply_reminder_update reminder_data fetched;
               st1 = st\<lparr>reminders := replace_row fetched reminder (reminders st)\<rparr>
           in if scheduler then
                (let js = remove_job (pid, rid) (jobs st1)
                 in if is_enabled reminder then
                      (case find (\<lambda>p. plan_id p = pid) (plans st1) of
                         None \<Rightarrow> Inl NoResultFound
                       | Some plan \<Rightarrow> Inr (st1\<lparr>jobs := schedule_job reminder plan js\<rparr>))
                    else Inr (st1\<lparr>jobs := js\<rparr>))
              else Inr st1))"

definition delete_reminder :: "state \<Rightarrow> bool \<Rightarrow> uuid \<Rightarrow> uuid \<Rightarrow> uuid \<Rightarrow> error + state" where
  "delete_reminder st scheduler uid pid rid =
     (case fetch_reminder st uid pid rid of
        None \<Rightarrow> Inl (NotFoundException ''Reminder not found'')
      | Some reminder \<Rightarrow>
          (let js = (if scheduler then remove_job (pid, rid) (jobs st) else jobs st)
           in Inr (st\<lparr>reminders := remove1 reminder (reminders st), jobs := js\<rparr>)))"

section \<open>Plan member service\<close>

text \<open>
  \<^verbatim>\<open>PlanMemberService.invite_member\<close>: the plan is looked up by id alone, the invitee by
  email, the membership by (plan, invitee); the inviter's id is only stored in the new row.
\<close>

definition invite_member ::
  "state \<Rightarrow> uuid \<Rightarrow> uuid \<Rightarrow> string \<Rightarrow> error + state \<times> PlanMember" where
  "invite_member st pid inviter_user_id invitee_email =
     (case find (\<lambda>p. plan_id p = pid) (plans st) of
        None \<Rightarrow> Inl (NotFoundException ''Plan not found'')
      | Some plan \<Rightarrow>
          (case find (\<lambda>u. email u = invitee_email) (users st) of
             None \<Rightarrow> Inl (NotFoundException (''User with email '' @ invitee_email @ '' not found''))
           | Some invitee \<Rightarrow>
               (case find (\<lambda>m. member_plan_id m = pid \<and> member_user_id m = user_id invitee)
                          (members st) of
                  Some existing \<Rightarrow>
                    Inl (AppException ''User is already a member of this plan'' ''ALREADY_MEMBER'' 400)
                | None \<Rightarrow>
                    (let member = \<lparr> member_id = next_uuid st, member_plan_id = pid,
                                    member_user_id = user_id invitee,
                                    invited_by = Some inviter_user_id \<rparr>
                     in Inr (st\<lparr>members := members st @ [member],
                                next_uuid := next_uuid st + 1\<rparr>, member)))))"

definition get_plan_members :: "state \<Rightarrow> uuid \<Rightarrow> PlanMember list" where
  "get_plan_members st pid = filter (\<lambda>m. member_plan_id m = pid) (members st)"

definition remove_member :: "state \<Rightarrow> uuid \<Rightarrow> uuid \<Rightarrow> error + state" where
  "remove_member st pid uid =
     (case find (\<lambda>m. member_plan_id m = pid \<and> member_user_id m = uid) (members st) of
        None \<Rightarrow> Inl (NotFoundException ''Plan membership not found'')
      | Some member \<Rightarrow> Inr (st\<lparr>members := remove1 member (members st)\<rparr>))"

section \<open>Leaderboard ranker\<close>

record LeaderboardEntry =
  le_user_id :: uuid
  le_user_name :: string
  le_user_email :: string
  le_total_executions :: nat
  avg_completion_rate :: real
  last_execution_date :: "int option"
  completion_rate_rank :: nat
  execution_count_rank :: nat

text \<open>
  The \<^verbatim>\<open>participants\<close> dictionary, in insertion order: assigning to a key that is
  present replaces its value and keeps its place.
\<close>

fun dict_set :: "'k \<Rightarrow> 'v \<Rightarrow> ('k \<times> 'v) list \<Rightarrow> ('k \<times> 'v) list" where
  "dict_set k v [] = [(k, v)]"
| "dict_set k v ((k', v') # rest) =
     (if k' = k then (k, v) # rest else (k', v') # dict_set k v rest)"

text \<open>\<^verbatim>\<open>user.full_name or user.email\<close>: an absent or empty name gives the email.\<close>

definition display_name :: "User \<Rightarrow> string" where
  "display_name u = (case full_name u of None \<Rightarrow> email u | Some n \<Rightarrow> if n = [] then email u else n)"

text \<open>
  The loop over the invited members.  \<^verbatim>\<open>member.user\<close> is the user row of the member;
  reading a field of a missing one raises.
\<close>

fun add_members ::
  "User list \<Rightarrow> PlanMember list \<Rightarrow> (uuid \<times> string \<times> string) list \<Rightarrow>
     error + (uuid \<times> string \<times> string) list" where
  "add_members us [] participants = Inr participants"
| "add_members us (member # rest) participants =
     (case find (\<lambda>u. user_id u = member_user_id member) us of
        None \<Rightarrow> Inl AttributeError
      | Some u \<Rightarrow>
          add_members us rest
            (dict_set (member_user_id member) (display_name u, email u) participants))"

text \<open>
  Lines 189-213.  The inner loop collects the rates of one execution; the outer loop
  appends the mean of an execution's rates only when the execution has any.
\<close>

fun exercise_rates_loop ::
  "arith \<Rightarrow> Exercise list \<Rightarrow> ExerciseExecution list \<Rightarrow> real list \<Rightarrow> real list" where
  "exercise_rates_loop ar plan_exercises [] exercise_rates = exercise_rates"
| "exercise_rates_loop ar plan_exercises (ex_exec # rest) exercise_rates =
     exercise_rates_loop ar plan_exercises rest
       (exercise_rates @ [exercise_rate ar plan_exercises ex_exec])"

fun completion_rates_loop ::
  "arith \<Rightarrow> Exercise list \<Rightarrow> PlanExecution list \<Rightarrow> real list \<Rightarrow> real list" where
  "completion_rates_loop ar plan_exercises [] completion_rates = completion_rates"
| "completion_rates_loop ar plan_exercises (execution # rest) completion_rates =
     (let exercise_rates =
            exercise_rates_loop ar plan_exercises (exercise_executions execution) []
      in completion_rates_loop ar plan_exercises rest
           (if exercise_rates \<noteq> []
            then completion_rates @
                   [fl_div ar (fl_sum ar exercise_rates) (of_nat (length exercise_rates))]
            else completion_rates))"

definition avg_rate :: "arith \<Rightarrow> Exercise list \<Rightarrow> PlanExecution list \<Rightarrow> real" where
  "avg_rate ar plan_exercises execs =
     average_or_zero ar (completion_rates_loop ar plan_exercises execs [])"

text \<open>
  The executions of one participant, most recent first.  The query orders by date only;
  rows of the same date are kept in table order here.
\<close>

definition participant_executions :: "state \<Rightarrow> uuid \<Rightarrow> uuid \<Rightarrow> PlanExecution list" where
  "participant_executions st pid uid =
     sort_key (\<lambda>e. - execution_date e)
       (filter (\<lambda>e. execution_plan_id e = pid \<and> execution_user_id e = uid) (executions st))"

text \<open>
  The entry appended for one participant (lines 172-224), ranks still 0.
\<close>

definition make_entry ::
  "arith \<Rightarrow> Exercise list \<Rightarrow> uuid \<times> string \<times> string \<Rightarrow> PlanExecution list \<Rightarrow>
     LeaderboardEntry" where
  "make_entry ar plan_exercises participant execs =
     (let total = length execs
      in if total = 0 then
           \<lparr> le_user_id = fst participant, le_user_name = fst (snd participant),
             le_user_email = snd (snd participant), le_total_executions = 0,
             avg_completion_rate = 0, last_execution_date = None,
             completion_rate_rank = 0, execution_count_rank = 0 \<rparr>
         else
           \<lparr> le_user_id = fst participant, le_user_name = fst (snd participant),
             le_user_email = snd (snd participant), le_total_executions = total,
             avg_completion_rate = fl_round1 ar (avg_rate ar plan_exercises execs),
             last_execution_date = (case execs of [] \<Rightarrow> None | e # _ \<Rightarrow> Some (execution_date e)),
             completion_rate_rank = 0, execution_count_rank = 0 \<rparr>)"

text \<open>
  Lines 226-237.  The entries are objects that the two sorted lists share with
  \<^verbatim>\<open>leaderboard\<close>: the list \<open>leaderboard\<close> is the store, a reference is an index into it,
  and a sorted list is a list of references.  \<^verbatim>\<open>sorted(..., reverse=True)\<close> is stable (rows
  with equal keys keep their order), as \<open>sort_key\<close> on the negated key is.
\<close>

definition sorted_by_rate :: "LeaderboardEntry list \<Rightarrow> nat list" where
  "sorted_by_rate leaderboard =
     sort_key (\<lambda>r. - avg_completion_rate (leaderboard ! r)) [0..<length leaderboard]"

definition sorted_by_count :: "LeaderboardEntry list \<Rightarrow> nat list" where
  "sorted_by_count leaderboard =
     sort_key (\<lambda>r. - int (le_total_executions (leaderboard ! r))) [0..<length leaderboard]"

fun set_completion_rate_ranks :: "nat \<Rightarrow> nat list \<Rightarrow> LeaderboardEntry list \<Rightarrow> LeaderboardEntry list" where
  "set_completion_rate_ranks i [] store = store"
| "set_completion_rate_ranks i (entry # rest) store =
     set_completion_rate_ranks (i + 1) rest
       (store[entry := (store ! entry)\<lparr>completion_rate_rank := i\<rparr>])"

fun set_execution_count_ranks :: "nat \<Rightarrow> nat list \<Rightarrow> LeaderboardEntry list \<Rightarrow> LeaderboardEntry list" where
  "set_execution_count_ranks i [] store = store"
| "set_execution_count_ranks i (entry # rest) store =
     set_execution_count_ranks (i + 1) rest
       (store[entry := (store ! entry)\<lparr>execution_count_rank := i\<rparr>])"

definition rank_leaderboard :: "LeaderboardEntry list \<Rightarrow> LeaderboardEntry list" where
  "rank_leaderboard leaderboard =
     (let leaderboard_by_rate = sorted_by_rate leaderboard;
          store1 = set_completion_rate_ranks 1 leaderboard_by_rate leaderboard;
          leaderboard_by_count = sorted_by_count store1;
          store2 = set_execution_count_ranks 1 leaderboard_by_count store1
      in map (\<lambda>r. store2 ! r) leaderboard_by_rate)"

text \<open>\<^verbatim>\<open>PlanMemberService.get_plan_leaderboard\<close>\<close>

definition get_plan_leaderboard ::
  "arith \<Rightarrow> state \<Rightarrow> uuid \<Rightarrow> error + LeaderboardEntry list" where
  "get_plan_leaderboard ar st pid =
     (case find (\<lambda>p. plan_id p = pid) (plans st) of
        None \<Rightarrow> Inl NoResultFound
      | Some plan \<Rightarrow>
          (case find (\<lambda>u. user_id u = plan_user_id plan) (users st) of
             None \<Rightarrow> Inl AttributeError
           | Some owner \<Rightarrow>
               (case add_members (users st) (get_plan_members st pid)
                       [(plan_user_id plan, display_name owner, email owner)] of
                  Inl err \<Rightarrow> Inl err
                | Inr participants \<Rightarrow>
                    if participants = [] then Inr []
                    else
                      (let plan_exercises =
                             filter (\<lambda>e. exercise_plan_id e = plan_id plan) (exercises st);
                           leaderboard =
                             map (\<lambda>p. make_entry ar plan_exercises p
                                         (participant_executions st pid (fst p)))
                                 participants
                       in Inr (rank_leaderboard leaderboard)))))"

text \<open>
  The participants of a plan: the owner and the users of its member rows.
\<close>

definition participant_ids :: "state \<Rightarrow> FitnessPlan \<Rightarrow> uuid set" where
  "participant_ids st plan =
     insert (plan_user_id plan) (member_user_id ` set (get_plan_members st (plan_id plan)))"

section \<open>Sequences of operations\<close>

text \<open>
  The requests that write the plan, exercise, reminder and member tables, and the state
  after a sequence of them, every one of which succeeded.
\<close>

datatype operation =
    CreatePlan uuid FitnessPlanCreate
  | UpdatePlan uuid uuid FitnessPlanUpdate
  | DeletePlan uuid uuid bool nat
  | AddExercise uuid uuid ExerciseCreate
  | UpdateExercise uuid uuid uuid ExerciseUpdate
  | DeleteExercise uuid uuid uuid
  | CreateReminder bool uuid uuid ReminderCreate
  | UpdateReminder bool uuid uuid uuid ReminderUpdate
  | DeleteReminder bool uuid uuid uuid
  | InviteMember uuid uuid string
  | RemoveMember uuid uuid

fun step :: "state \<Rightarrow> operation \<Rightarrow> error + state" where
  "step st (CreatePlan uid plan_data) = create_fitness_plan st uid plan_data"
| "step st (UpdatePlan uid pid plan_data) = update_plan st uid pid plan_data"
| "step st (DeletePlan uid pid scheduler now) = delete_plan st uid pid scheduler now"
| "step st (AddExercise uid pid exercise_data) = add_exercise st uid pid exercise_data"
| "step st (UpdateExercise uid pid eid exercise_data) = update_exercise st uid pid eid exercise_data"
| "step st (DeleteExercise uid pid eid) = delete_exercise st uid pid eid"
| "step st (CreateReminder scheduler uid pid reminder_data) =
     create_reminder st scheduler uid pid reminder_data"
| "step st (UpdateReminder scheduler uid pid rid reminder_data) =
     update_reminder st scheduler uid pid rid reminder_data"
| "step st (DeleteReminder scheduler uid pid rid) = delete_reminder st scheduler uid pid rid"
| "step st (InviteMember pid inviter invitee_email) =
     (case invite_member st pid inviter invitee_email of
        Inl err \<Rightarrow> Inl err | Inr (st', member) \<Rightarrow> Inr st')"
| "step st (RemoveMember pid uid) = remove_member st pid uid"

fun run :: "state \<Rightarrow> operation list \<Rightarrow> error + state" where
  "run st [] = Inr st"
| "run st (op # ops) = (case step st op of Inl err \<Rightarrow> Inl err | Inr st' \<Rightarrow> run st' ops)"

text \<open>Every plan that is not deleted has at least one exercise.\<close>

definition plans_nonempty :: "state \<Rightarrow> bool" where
  "plans_nonempty st =
     (\<forall>p \<in> set (plans st). deleted_at p = None \<longrightarrow> 1 \<le> exercise_count st (plan_id p))"

definition empty_state :: state where
  "empty_state =
     \<lparr> users = [], plans = [], exercises = [], reminders = [], members = [],
       executions = [], jobs = [], next_uuid = 0 \<rparr>"

section \<open>Example data\<close>

text \<open>
  A plan with a 30-minute run and 20 squats, and four exercise executions: the run done
  for 45 minutes, 5 squats done, the run skipped (with figures recorded all the same), and
  the run ticked off with nothing recorded.
\<close>

definition plan30 :: "Exercise list" where
  "plan30 = [\<lparr> exercise_id = 1, exercise_plan_id = 1, exercise_name = ''run'',
               duration_minutes = Some 30, repetitions = None, order_index = 0 \<rparr>,
             \<lparr> exercise_id = 2, exercise_plan_id = 1, exercise_name = ''squat'',
               duration_minutes = None, repetitions = Some 20, order_index = 1 \<rparr>]"

definition ran45 :: ExerciseExecution where
  "ran45 = \<lparr> ee_exercise_id = 1, completed = True, actual_duration_minutes = Some 45,
             actual_repetitions = None \<rparr>"

definition squat5 :: ExerciseExecution where
  "squat5 = \<lparr> ee_exercise_id = 2, completed = True, actual_duration_minutes = None,
              actual_repetitions = Some 5 \<rparr>"

definition skipped :: ExerciseExecution where
  "skipped = \<lparr> ee_exercise_id = 1, completed = False, actual_duration_minutes = Some 45,
               actual_repetitions = Some 3 \<rparr>"

definition ticked :: ExerciseExecution where
  "ticked = \<lparr> ee_exercise_id = 1, completed = True, actual_duration_minutes = None,
              actual_repetitions = None \<rparr>"

definition unknown_exercise :: ExerciseExecution where
  "unknown_exercise = \<lparr> ee_exercise_id = 9, completed = True, actual_duration_minutes = Some 10,
                        actual_repetitions = None \<rparr>"

text \<open>
  A plan with exercises of 16, 3 and 24 repetitions and one of 25 minutes, and
  executions doing 3 of the 16, 1 of the 3, 1 of the 24, and 7 of the 25 minutes.
\<close>

definition rep_plan :: "Exercise list" where
  "rep_plan = [\<lparr> exercise_id = 1, exercise_plan_id = 1, exercise_name = ''push-up'',
                  duration_minutes = None, repetitions = Some 16, order_index = 0 \<rparr>,
               \<lparr> exercise_id = 2, exercise_plan_id = 1, exercise_name = ''pull-up'',
                  duration_minutes = None, repetitions = Some 3, order_index = 1 \<rparr>,
               \<lparr> exercise_id = 3, exercise_plan_id = 1, exercise_name = ''sit-up'',
                  duration_minutes = None, repetitions = Some 24, order_index = 2 \<rparr>,
               \<lparr> exercise_id = 4, exercise_plan_id = 1, exercise_name = ''walk'',
                  duration_minutes = Some 25, repetitions = None, order_index = 3 \<rparr>]"

definition three_of_16 :: ExerciseExecution where
  "three_of_16 = \<lparr> ee_exercise_id = 1, completed = True, actual_duration_minutes = None,
                   actual_repetitions = Some 3 \<rparr>"

definition one_of_3 :: ExerciseExecution where
  "one_of_3 = \<lparr> ee_exercise_id = 2, completed = True, actual_duration_minutes = None,
                actual_repetitions = Some 1 \<rparr>"

definition one_of_24 :: ExerciseExecution where
  "one_of_24 = \<lparr> ee_exercise_id = 3, completed = True, actual_duration_minutes = None,
                 actual_repetitions = Some 1 \<rparr>"

definition seven_of_25 :: ExerciseExecution where
  "seven_of_25 = \<lparr> ee_exercise_id = 4, completed = True, actual_duration_minutes = Some 7,
                   actual_repetitions = None \<rparr>"

definition half_past_seven :: time_of_day where
  "half_past_seven = \<lparr> hour = 7, minute = 30, second = 0 \<rparr>"

text \<open>
  A state with four users and one plan: Alice (1) owns plan 10, Bob (2) is a member of
  it, Carol (3) and Dave (4) have nothing to do with it.  The plan has one exercise (20)
  and one reminder (40).
\<close>

definition alice :: User where
  "alice = \<lparr> user_id = 1, email = ''alice@example.com'', full_name = Some ''Alice'' \<rparr>"

definition bob :: User where
  "bob = \<lparr> user_id = 2, email = ''bob@example.com'', full_name = None \<rparr>"

definition carol :: User where
  "carol = \<lparr> user_id = 3, email = ''carol@example.com'', full_name = Some ''Carol'' \<rparr>"

definition dave :: User where
  "dave = \<lparr> user_id = 4, email = ''dave@example.com'', full_name = Some [] \<rparr>"

definition morning_plan :: FitnessPlan where
  "morning_plan = \<lparr> plan_id = 10, plan_user_id = 1, plan_name = ''Morning'',
                     plan_description = None, deleted_at = None \<rparr>"

definition morning_run :: Exercise where
  "morning_run = \<lparr> exercise_id = 20, exercise_plan_id = 10, exercise_name = ''run'',
                    duration_minutes = Some 30, repetitions = None, order_index = 0 \<rparr>"

definition bob_membership :: PlanMember where
  "bob_membership = \<lparr> member_id = 30, member_plan_id = 10, member_user_id = 2,
                       invited_by = Some 1 \<rparr>"

definition morning_reminder :: Reminder where
  "morning_reminder = \<lparr> reminder_id = 40, reminder_plan_id = 10,
                         reminder_time = half_past_seven, frequency = DAILY,
                         days_of_week = None, is_enabled = True \<rparr>"

definition shared_state :: state where
  "shared_state =
     \<lparr> users = [alice, bob, carol, dave], plans = [morning_plan], exercises = [morning_run],
       reminders = [morning_reminder], members = [bob_membership], executions = [],
       jobs = [], next_uuid = 100 \<rparr>"

definition rename_plan :: FitnessPlanUpdate where
  "rename_plan = \<lparr> pu_name = Some ''Taken over'', pu_description = None \<rparr>"

text \<open>
  A life of a plan, from the empty state: user 1 creates a plan with two exercises (the
  plan gets id 0, the exercises 1 and 2), adds a third (3), and deletes the first two.
\<close>

definition two_exercise_plan :: FitnessPlanCreate where
  "two_exercise_plan =
     \<lparr> pc_name = ''Strength'', pc_description = None,
       pc_exercises =
         [\<lparr> ec_name = ''squat'', ec_duration_minutes = None, ec_repetitions = Some 20,
            ec_order_index = 0 \<rparr>,
          \<lparr> ec_name = ''plank'', ec_duration_minutes = Some 2, ec_repetitions = None,
            ec_order_index = 1 \<rparr>] \<rparr>"

definition lunge :: ExerciseCreate where
  "lunge = \<lparr> ec_name = ''lunge'', ec_duration_minutes = None, ec_repetitions = Some 12,
             ec_order_index = 2 \<rparr>"

definition lifecycle_ops :: "operation list" where
  "lifecycle_ops =
     [CreatePlan 1 two_exercise_plan, AddExercise 1 0 lunge, DeleteExercise 1 0 1,
      DeleteExercise 1 0 2]"

definition lifecycle_state :: state where
  "lifecycle_state =
     \<lparr> users = [],
       plans = [\<lparr> plan_id = 0, plan_user_id = 1, plan_name = ''Strength'',
                  plan_description = None, deleted_at = None \<rparr>],
       exercises = [new_exercise 3 0 lunge],
       reminders = [], members = [], executions = [], jobs = [], next_uuid = 4 \<rparr>"

subsection \<open>A plan with four participants\<close>

text \<open>
  Alice owns the plan; Bob, Carol and Dave are members.  Alice has run 45 of the 30
  planned minutes on day 1 and has an execution without exercise executions on day 2; Bob
  has run 15 minutes; Carol has three executions with the run not completed; Dave has none.
  \<^verbatim>\<open>league_table\<close> is the leaderboard of this state.
\<close>

definition carol_membership :: PlanMember where
  "carol_membership = \<lparr> member_id = 31, member_plan_id = 10, member_user_id = 3,
                         invited_by = Some 2 \<rparr>"

definition dave_membership :: PlanMember where
  "dave_membership = \<lparr> member_id = 32, member_plan_id = 10, member_user_id = 4,
                        invited_by = Some 1 \<rparr>"

definition run_45 :: ExerciseExecution where
  "run_45 = \<lparr> ee_exercise_id = 20, completed = True, actual_duration_minutes = Some 45,
              actual_repetitions = None \<rparr>"

definition run_15 :: ExerciseExecution where
  "run_15 = \<lparr> ee_exercise_id = 20, completed = True, actual_duration_minutes = Some 15,
              actual_repetitions = None \<rparr>"

definition run_skipped :: ExerciseExecution where
  "run_skipped = \<lparr> ee_exercise_id = 20, completed = False, actual_duration_minutes = None,
                   actual_repetitions = None \<rparr>"

definition alice_run :: PlanExecution where
  "alice_run = \<lparr> execution_id = 50, execution_plan_id = 10, execution_user_id = 1,
                 execution_date = 1, exercise_executions = [run_45] \<rparr>"

definition alice_rest_day :: PlanExecution where
  "alice_rest_day = \<lparr> execution_id = 51, execution_plan_id = 10, execution_user_id = 1,
                      execution_date = 2, exercise_executions = [] \<rparr>"

definition bob_run :: PlanExecution where
  "bob_run = \<lparr> execution_id = 52, execution_plan_id = 10, execution_user_id = 2,
               execution_date = 1, exercise_executions = [run_15] \<rparr>"

definition carol_day :: "uuid \<Rightarrow> int \<Rightarrow> PlanExecution" where
  "carol_day i d = \<lparr> execution_id = i, execution_plan_id = 10, execution_user_id = 3,
                     execution_date = d, exercise_executions = [run_skipped] \<rparr>"

definition league_state :: state where
  "league_state =
     shared_state\<lparr> members := [bob_membership, carol_membership, dave_membership],
                   executions := [alice_run, alice_rest_day, bob_run, carol_day 53 1,
                                  carol_day 54 2, carol_day 55 3] \<rparr>"

definition league_table :: "LeaderboardEntry list" where
  "league_table =
     [\<lparr> le_user_id = 1, le_user_name = ''Alice'', le_user_email = ''alice@example.com'',
        le_total_executions = 2, avg_completion_rate = 100, last_execution_date = Some 2,
        completion_rate_rank = 1, execution_count_rank = 2 \<rparr>,
      \<lparr> le_user_id = 2, le_user_name = ''bob@example.com'', le_user_email = ''bob@example.com'',
        le_total_executions = 1, avg_completion_rate = 50, last_execution_date = Some 1,
        completion_rate_rank = 2, execution_count_rank = 3 \<rparr>,
      \<lparr> le_user_id = 3, le_user_name = ''Carol'', le_user_email = ''carol@example.com'',
        le_total_executions = 3, avg_completion_rate = 0, last_execution_date = Some 3,
        completion_rate_rank = 3, execution_count_rank = 1 \<rparr>,
      \<lparr> le_user_id = 4, le_user_name = ''dave@example.com'', le_user_email = ''dave@example.com'',
        le_total_executions = 0, avg_completion_rate = 0, last_execution_date = None,
        completion_rate_rank = 4, execution_count_rank = 4 \<rparr>]"

section \<open>Properties of the completion calculator\<close>

lemmas double_eval = double_arith_def double_div_def double_mul_def double_sum_def to_double_def
  scale.simps round_half_even_def py_round1_def Let_def

lemma rates_loop_fst:
  "fst (rates_loop ar exs xs acc) = fst acc @ map (exercise_rate ar exs) xs"
  by (induction ar exs xs acc rule: rates_loop.induct) simp_all

lemma rates_loop_snd:
  "snd (rates_loop ar exs xs acc) = snd acc + length (filter completed xs)"
  by (induction ar exs xs acc rule: rates_loop.induct) simp_all

lemma completion_rate_eq:
  "completion_rate ar exs xs = average_or_zero ar (map (exercise_rate ar exs) xs)"
  by (simp add: completion_rate_def rates_loop_fst)

lemma create_summary_rate:
  "summary_completion_rate (create_summary ar exs xs) = fl_round1 ar (completion_rate ar exs xs)"
  by (simp add: create_summary_def completion_rate_def split: prod.splits)

lemma find_exercise_row:
  "distinct (map exercise_id exs) \<Longrightarrow> e \<in> set exs \<Longrightarrow> find_exercise exs (exercise_id e) = Some e"
  unfolding find_exercise_def by (induction exs) auto

lemma find_exercise_missing:
  "\<forall>e \<in> set exs. exercise_id e \<noteq> eid \<Longrightarrow> find_exercise exs eid = None"
  unfolding find_exercise_def by (simp add: find_None_iff)

lemma rate_one_of_3: "exercise_rate double_arith rep_plan one_of_3 = 2345624805922133 / 70368744177664"
  by (simp add: exercise_rate_def find_exercise_def rep_plan_def one_of_3_def truthy_def
        capped_rate_def double_eval)

lemma rate_one_of_24: "exercise_rate double_arith rep_plan one_of_24 = 2345624805922133 / 562949953421312"
  by (simp add: exercise_rate_def find_exercise_def rep_plan_def one_of_24_def truthy_def
        capped_rate_def double_eval)

lemma rate_seven_of_25:
  "exercise_rate double_arith rep_plan seven_of_25 = 7881299347898369 / 281474976710656"
  by (simp add: exercise_rate_def find_exercise_def rep_plan_def seven_of_25_def truthy_def
        capped_rate_def double_eval)

lemma double_mean_of_two:
  "fl_div double_arith
     (fl_sum double_arith [2345624805922133 / 70368744177664, 2345624805922133 / 562949953421312]) 2
   = 5277655813324799 / 281474976710656"
  by (simp add: double_eval)

lemma round1_of_double_mean:
  "fl_round1 double_arith (5277655813324799 / 281474976710656) = 5263582064489267 / 281474976710656"
  by (simp add: double_eval)

lemma completion_rate_one_of_3_one_of_24:
  "completion_rate double_arith rep_plan [one_of_3, one_of_24] = 5277655813324799 / 281474976710656"
  using double_mean_of_two
  by (simp add: completion_rate_eq average_or_zero_def rate_one_of_3 rate_one_of_24)

text \<open>
  C4, as the code has it.  The overall completion rate of a plan execution (lines 190-194
  of \<^verbatim>\<open>get_plan_executions\<close>) is the sum of the rates of its exercise executions divided
  by their number, both in float arithmetic, and 0 when it has none; in exact arithmetic
  that is the arithmetic mean.  The summary reports it through \<^verbatim>\<open>round(..., 1)\<close>.
\<close>

theorem overall_rate_is_float_mean:
  "(xs \<noteq> [] \<longrightarrow> completion_rate ar exs xs =
       fl_div ar (fl_sum ar (map (exercise_rate ar exs) xs)) (of_nat (length xs)))
   \<and> (xs \<noteq> [] \<longrightarrow> completion_rate exact_arith exs xs =
       arithmetic_mean (map (exercise_rate exact_arith exs) xs))
   \<and> (xs = [] \<longrightarrow> completion_rate ar exs xs = 0)
   \<and> summary_completion_rate (create_summary ar exs xs) = fl_round1 ar (completion_rate ar exs xs)"
  by (simp add: completion_rate_eq average_or_zero_def arithmetic_mean_def create_summary_rate
        exact_arith_def)

theorem overall_rate_is_float_mean_witness:
  "completion_rate double_arith rep_plan [one_of_3, one_of_24] = 5277655813324799 / 281474976710656
   \<and> summary_completion_rate (create_summary double_arith rep_plan [one_of_3, one_of_24])
       = 5263582064489267 / 281474976710656
   \<and> completion_rate exact_arith rep_plan [one_of_3, one_of_24] = 75 / 4
   \<and> completion_rate double_arith rep_plan [three_of_16] = 75 / 4
   \<and> summary_completion_rate (create_summary double_arith rep_plan [three_of_16])
       = 5291729562160333 / 281474976710656
   \<and> completion_rate double_arith rep_plan [] = 0"
proof -
  note t = overall_rate_is_float_mean [of "[one_of_3, one_of_24]" double_arith rep_plan]
  note u = overall_rate_is_float_mean [of "[three_of_16]" double_arith rep_plan]
  note v = overall_rate_is_float_mean [of "[]" double_arith rep_plan]
  have 1: "completion_rate double_arith rep_plan [one_of_3, one_of_24] = 5277655813324799 / 281474976710656"
    using t double_mean_of_two by (simp add: rate_one_of_3 rate_one_of_24)
  have 2: "summary_completion_rate (create_summary double_arith rep_plan [one_of_3, one_of_24])
       = 5263582064489267 / 281474976710656"
    using t 1 round1_of_double_mean by simp
  have 3: "completion_rate exact_arith rep_plan [one_of_3, one_of_24] = 75 / 4"
    using t by (simp add: arithmetic_mean_def exercise_rate_def find_exercise_def rep_plan_def
          one_of_3_def one_of_24_def truthy_def capped_rate_def exact_arith_def)
  have r16: "exercise_rate double_arith rep_plan three_of_16 = 75 / 4"
    by (simp add: exercise_rate_def find_exercise_def rep_plan_def three_of_16_def truthy_def
          capped_rate_def double_eval)
  have 4: "completion_rate double_arith rep_plan [three_of_16] = 75 / 4"
    using u by (simp add: r16) (simp add: double_eval)
  have 5: "summary_completion_rate (create_summary double_arith rep_plan [three_of_16])
       = 5291729562160333 / 281474976710656"
    using u 4 by simp (simp add: double_eval)
  have 6: "completion_rate double_arith rep_plan [] = 0"
    using v by simp
  from 1 2 3 4 5 6 show ?thesis by blast
qed


text \<open>
  C4, as stated.  One of 3 and one of 24 repetitions done: the rates are the doubles
  nearest to 100/3 and 100/24, and the overall rate the code computes is
  18.749999999999996, which is neither the mean of these two doubles nor 75/4, the mean
  of the exact rates.
\<close>

theorem overall_rate_not_exact_mean:
  "completion_rate double_arith rep_plan [one_of_3, one_of_24] = 5277655813324799 / 281474976710656
   \<and> arithmetic_mean (map (exercise_rate double_arith rep_plan) [one_of_3, one_of_24])
       = 21110623253299197 / 1125899906842624
   \<and> arithmetic_mean (map (exercise_rate exact_arith rep_plan) [one_of_3, one_of_24]) = 75 / 4
   \<and> completion_rate double_arith rep_plan [one_of_3, one_of_24]
       \<noteq> arithmetic_mean (map (exercise_rate double_arith rep_plan) [one_of_3, one_of_24])
   \<and> completion_rate double_arith rep_plan [one_of_3, one_of_24] \<noteq> 75 / 4"
proof -
  have a: "arithmetic_mean (map (exercise_rate double_arith rep_plan) [one_of_3, one_of_24])
       = 21110623253299197 / 1125899906842624"
    by (simp add: arithmetic_mean_def rate_one_of_3 rate_one_of_24)
  have b: "arithmetic_mean (map (exercise_rate exact_arith rep_plan) [one_of_3, one_of_24]) = 75 / 4"
    by (simp add: arithmetic_mean_def exercise_rate_def find_exercise_def rep_plan_def
          one_of_3_def one_of_24_def truthy_def capped_rate_def exact_arith_def)
  have c: "(5277655813324799 / 281474976710656 :: real) \<noteq> 21110623253299197 / 1125899906842624"
    by simp
  have d: "(5277655813324799 / 281474976710656 :: real) \<noteq> 75 / 4"
    by simp
  show ?thesis
    using a b c d by (simp only: completion_rate_one_of_3_one_of_24) simp
qed

text \<open>
  C5, as the code has it.  For a completed exercise execution whose exercise is a row of
  the plan (the ids of the rows being distinct): with a planned and a recorded duration
  the rate is \<^verbatim>\<open>min(actual / planned * 100, 100)\<close> evaluated in float arithmetic; with
  planned and recorded repetitions, when the duration case does not apply, it is the same
  on the repetitions.  With no actual figure recorded, or with no row of that id in the
  plan, it is 100.  A stored duration or repetition count is never 0 (the request schemas
  require at least 1, the table more than 0).  45 minutes against 30 planned gives 100;
  in exact arithmetic the float formula is the formula of the claim.
\<close>

theorem completed_rate_formula:
  "completed x \<Longrightarrow>
     (\<forall>e d a. distinct (map exercise_id exs) \<and> e \<in> set exs \<and> exercise_id e = ee_exercise_id x
          \<and> duration_minutes e = Some d \<and> d \<noteq> 0
          \<and> actual_duration_minutes x = Some a \<and> a \<noteq> 0
        \<longrightarrow> exercise_rate ar exs x =
              min (fl_mul ar (fl_div ar (of_int a) (of_int d)) 100) 100)
   \<and> (\<forall>e r a. distinct (map exercise_id exs) \<and> e \<in> set exs \<and> exercise_id e = ee_exercise_id x
          \<and> repetitions e = Some r \<and> r \<noteq> 0
          \<and> actual_repetitions x = Some a \<and> a \<noteq> 0
          \<and> (duration_minutes e = None \<or> actual_duration_minutes x = None)
        \<longrightarrow> exercise_rate ar exs x =
              min (fl_mul ar (fl_div ar (of_int a) (of_int r)) 100) 100)
   \<and> (actual_duration_minutes x = None \<and> actual_repetitions x = None \<longrightarrow> exercise_rate ar exs x = 100)
   \<and> ((\<forall>e \<in> set exs. exercise_id e \<noteq> ee_exercise_id x) \<longrightarrow> exercise_rate ar exs x = 100)
   \<and> min (fl_mul double_arith (fl_div double_arith 45 30) 100) (100 :: real) = 100
   \<and> min (fl_mul exact_arith (fl_div exact_arith (of_int a') (of_int d')) 100) 100
       = min (of_int a' / of_int d' * 100) 100"
proof (intro conjI allI impI)
  fix e d a
  assume c: "completed x"
  assume h: "distinct (map exercise_id exs) \<and> e \<in> set exs \<and> exercise_id e = ee_exercise_id x
          \<and> duration_minutes e = Some d \<and> d \<noteq> 0
          \<and> actual_duration_minutes x = Some a \<and> a \<noteq> 0"
  then have "find_exercise exs (ee_exercise_id x) = Some e"
    using find_exercise_row [of exs e] by auto
  then show "exercise_rate ar exs x = min (fl_mul ar (fl_div ar (of_int a) (of_int d)) 100) 100"
    using c h by (simp add: exercise_rate_def truthy_def capped_rate_def)
next
  fix e r a
  assume c: "completed x"
  assume h: "distinct (map exercise_id exs) \<and> e \<in> set exs \<and> exercise_id e = ee_exercise_id x
          \<and> repetitions e = Some r \<and> r \<noteq> 0
          \<and> actual_repetitions x = Some a \<and> a \<noteq> 0
          \<and> (duration_minutes e = None \<or> actual_duration_minutes x = None)"
  then have "find_exercise exs (ee_exercise_id x) = Some e"
    using find_exercise_row [of exs e] by auto
  then show "exercise_rate ar exs x = min (fl_mul ar (fl_div ar (of_int a) (of_int r)) 100) 100"
    using c h by (auto simp: exercise_rate_def truthy_def capped_rate_def)
next
  assume c: "completed x"
  assume "actual_duration_minutes x = None \<and> actual_repetitions x = None"
  then show "exercise_rate ar exs x = 100"
    using c by (simp add: exercise_rate_def truthy_def split: option.splits)
next
  assume c: "completed x"
  assume "\<forall>e \<in> set exs. exercise_id e \<noteq> ee_exercise_id x"
  then have "find_exercise exs (ee_exercise_id x) = None"
    by (rule find_exercise_missing)
  then show "exercise_rate ar exs x = 100"
    using c by (simp add: exercise_rate_def)
next
  show "min (fl_mul double_arith (fl_div double_arith 45 30) 100) (100 :: real) = 100"
    by (simp add: double_eval)
next
  show "min (fl_mul exact_arith (fl_div exact_arith (of_int a') (of_int d')) 100) 100
       = min (of_int a' / of_int d' * 100) 100"
    by (simp add: exact_arith_def)
qed

theorem completed_rate_formula_witness:
  "completed ran45 \<and> exercise_rate double_arith plan30 ran45 = 100
   \<and> exercise_rate double_arith plan30 ran45 \<noteq> 150
   \<and> completed squat5 \<and> exercise_rate double_arith plan30 squat5 = 25
   \<and> completed seven_of_25
   \<and> exercise_rate double_arith rep_plan seven_of_25 = 7881299347898369 / 281474976710656
   \<and> completed ticked \<and> exercise_rate double_arith plan30 ticked = 100
   \<and> completed unknown_exercise \<and> map exercise_id plan30 = [1, 2]
   \<and> ee_exercise_id unknown_exercise = 9 \<and> exercise_rate double_arith plan30 unknown_exercise = 100"
proof -
  have c1: "completed ran45" and c2: "completed squat5" and c3: "completed ticked"
    and c4: "completed unknown_exercise" and c5: "completed seven_of_25"
    by (simp_all add: ran45_def squat5_def ticked_def unknown_exercise_def seven_of_25_def)
  have d30: "distinct (map exercise_id plan30)" by (simp add: plan30_def)
  have drep: "distinct (map exercise_id rep_plan)" by (simp add: rep_plan_def)
  have m1: "plan30 ! 0 \<in> set plan30 \<and> exercise_id (plan30 ! 0) = ee_exercise_id ran45
      \<and> duration_minutes (plan30 ! 0) = Some 30 \<and> (30::int) \<noteq> 0
      \<and> actual_duration_minutes ran45 = Some 45 \<and> (45::int) \<noteq> 0"
    by (simp add: plan30_def ran45_def)
  have "exercise_rate double_arith plan30 ran45 =
          min (fl_mul double_arith (fl_div double_arith (of_int 45) (of_int 30)) 100) 100"
    using completed_rate_formula [OF c1, of plan30 double_arith] d30 m1 by blast
  then have 1: "exercise_rate double_arith plan30 ran45 = 100"
    by (simp add: double_eval)
  have m2: "plan30 ! 1 \<in> set plan30 \<and> exercise_id (plan30 ! 1) = ee_exercise_id squat5
      \<and> repetitions (plan30 ! 1) = Some 20 \<and> (20::int) \<noteq> 0
      \<and> actual_repetitions squat5 = Some 5 \<and> (5::int) \<noteq> 0
      \<and> duration_minutes (plan30 ! 1) = None"
    by (simp add: plan30_def squat5_def)
  have "exercise_rate double_arith plan30 squat5 =
          min (fl_mul double_arith (fl_div double_arith (of_int 5) (of_int 20)) 100) 100"
    using completed_rate_formula [OF c2, of plan30 double_arith] d30 m2 by blast
  then have 2: "exercise_rate double_arith plan30 squat5 = 25"
    by (simp add: double_eval)
  have m3: "rep_plan ! 3 \<in> set rep_plan \<and> exercise_id (rep_plan ! 3) = ee_exercise_id seven_of_25
      \<and> duration_minutes (rep_plan ! 3) = Some 25 \<and> (25::int) \<noteq> 0
      \<and> actual_duration_minutes seven_of_25 = Some 7 \<and> (7::int) \<noteq> 0"
    by (simp add: rep_plan_def seven_of_25_def)
  have "exercise_rate double_arith rep_plan seven_of_25 =
          min (fl_mul double_arith (fl_div double_arith (of_int 7) (of_int 25)) 100) 100"
    using completed_rate_formula [OF c5, of rep_plan double_arith] drep m3 by blast
  then have 3: "exercise_rate double_arith rep_plan seven_of_25 = 7881299347898369 / 281474976710656"
    by (simp add: double_eval)
  have m4: "actual_duration_minutes ticked = None \<and> actual_repetitions ticked = None"
    by (simp add: ticked_def)
  have 4: "exercise_rate double_arith plan30 ticked = 100"
    using completed_rate_formula [OF c3, of plan30 double_arith] m4 by blast
  have m5: "\<forall>e \<in> set plan30. exercise_id e \<noteq> ee_exercise_id unknown_exercise"
    by (simp add: plan30_def unknown_exercise_def)
  have 5: "exercise_rate double_arith plan30 unknown_exercise = 100"
    using completed_rate_formula [OF c4, of plan30 double_arith] m5 by blast
  have 6: "map exercise_id plan30 = [1, 2] \<and> ee_exercise_id unknown_exercise = 9"
    by (simp add: plan30_def unknown_exercise_def)
  from c1 c2 c3 c4 c5 1 2 3 4 5 6 show ?thesis by simp
qed

text \<open>
  C5, as stated.  7 minutes done of 25 planned: the code computes
  \<^verbatim>\<open>(7 / 25) * 100 = 28.000000000000004\<close>, not the 28 of the formula in the real numbers.
\<close>

theorem formula_rounds_in_doubles:
  "completed seven_of_25
   \<and> find_exercise rep_plan (ee_exercise_id seven_of_25) = Some (rep_plan ! 3)
   \<and> duration_minutes (rep_plan ! 3) = Some 25 \<and> actual_duration_minutes seven_of_25 = Some 7
   \<and> exercise_rate double_arith rep_plan seven_of_25 = 7881299347898369 / 281474976710656
   \<and> min (7 / 25 * 100) (100 :: real) = 28
   \<and> exercise_rate double_arith rep_plan seven_of_25 \<noteq> min (7 / 25 * 100) 100"
proof -
  have a: "completed seven_of_25
   \<and> find_exercise rep_plan (ee_exercise_id seven_of_25) = Some (rep_plan ! 3)
   \<and> duration_minutes (rep_plan ! 3) = Some 25 \<and> actual_duration_minutes seven_of_25 = Some 7"
    by (simp add: seven_of_25_def rep_plan_def find_exercise_def)
  have b: "min (7 / 25 * 100) (100 :: real) = 28" by simp
  have c: "(7881299347898369 / 281474976710656 :: real) \<noteq> 28" by simp
  from a b c show ?thesis by (simp only: rate_seven_of_25) simp
qed

text \<open>
  C6.  An exercise execution that is not completed has rate 0, whatever actual duration
  or repetitions it records.
\<close>

theorem not_completed_rate_zero:
  "\<not> completed ex_exec \<Longrightarrow> exercise_rate ar exs ex_exec = 0"
  by (simp add: exercise_rate_def)

theorem not_completed_rate_zero_witness:
  "\<not> completed skipped \<and> actual_duration_minutes skipped = Some 45
   \<and> exercise_rate double_arith plan30 skipped = 0"
proof -
  have n: "\<not> completed skipped" by (simp add: skipped_def)
  show ?thesis
    using n not_completed_rate_zero [OF n, of double_arith plan30] by (simp add: skipped_def)
qed


section \<open>Properties of the reminder schedule translator\<close>

lemma digit_char_small:
  "n < 7 \<Longrightarrow> digit_char n \<noteq> CHR '','' \<and> parse_nat [digit_char n] = Some n"
proof -
  assume "n < 7"
  then consider "n = 0" | "n = 1" | "n = 2" | "n = 3" | "n = 4" | "n = 5" | "n = 6" by linarith
  then show ?thesis
    by cases (simp_all add: digit_char_def parse_nat_def digit_value_def)
qed

lemma str_int_weekday:
  assumes "1 \<le> d" "d \<le> 7"
  shows "str_int ((d - 1) mod 7) = [digit_char (nat (d - 1))]"
proof -
  have "(d - 1) mod 7 = d - 1" using assms by simp
  moreover have "nat (d - 1) < 10" using assms by simp
  ultimately show ?thesis using assms
    by (simp add: str_int_def str_nat.simps)
qed

lemma split_on_join_singletons:
  assumes "xs \<noteq> []" "\<forall>x \<in> set xs. f x \<noteq> c"
  shows "split_on c (join [c] (map (\<lambda>x. [f x]) xs)) = map (\<lambda>x. [f x]) xs"
  using assms
proof (induction xs rule: induct_list012)
  case 1
  then show ?case by simp
next
  case (2 x)
  then show ?case by simp
next
  case (3 x y zs)
  then show ?case by simp
qed

lemma cron_days_singletons:
  assumes "\<forall>d \<in> set ds. 1 \<le> d \<and> d \<le> 7"
  shows "cron_days ds = join '','' (map (\<lambda>d. [digit_char (nat (d - 1))]) ds)"
proof -
  have h: "map (\<lambda>day. str_int ((day - 1) mod 7)) ds = map (\<lambda>d. [digit_char (nat (d - 1))]) ds"
    using assms by (intro map_cong) (simp_all add: str_int_weekday)
  show ?thesis by (simp only: cron_days_def h)
qed

lemma weekday_numbering:
  assumes "1 \<le> d" "d \<le> 7"
  shows "scheduler_weekday (nat ((d - 1) mod 7)) = reminder_weekday d"
  using assms by (simp add: scheduler_weekday_def reminder_weekday_def)

lemma trigger_weekdays_cron_days:
  assumes "ds \<noteq> []" "\<forall>d \<in> set ds. 1 \<le> d \<and> d \<le> 7"
  shows "trigger_weekdays (weekday_trigger (cron_days ds) t) =
           {w. \<exists>d \<in> set ds. reminder_weekday d = Some w}"
proof -
  have small: "\<forall>d \<in> set ds. nat (d - 1) < 7" using assms(2) by auto
  then have nc: "\<forall>d \<in> set ds. digit_char (nat (d - 1)) \<noteq> CHR '',''"
    using digit_char_small by blast
  have split: "split_on CHR '','' (cron_days ds) = map (\<lambda>d. [digit_char (nat (d - 1))]) ds"
    unfolding cron_days_singletons [OF assms(2)]
    using split_on_join_singletons [OF assms(1), of "\<lambda>d. digit_char (nat (d - 1))" "CHR '',''"] nc
    by simp
  have each: "\<forall>d \<in> set ds. (case parse_nat [digit_char (nat (d - 1))] of None \<Rightarrow> None
                 | Some n \<Rightarrow> scheduler_weekday n) = reminder_weekday d"
  proof
    fix d assume d: "d \<in> set ds"
    then have r: "1 \<le> d" "d \<le> 7" using assms(2) by auto
    then have "nat (d - 1) < 7" by simp
    then have "parse_nat [digit_char (nat (d - 1))] = Some (nat (d - 1))"
      using digit_char_small by blast
    moreover have "scheduler_weekday (nat (d - 1)) = reminder_weekday d"
      using weekday_numbering [OF r] r by simp
    ultimately show "(case parse_nat [digit_char (nat (d - 1))] of None \<Rightarrow> None
                 | Some n \<Rightarrow> scheduler_weekday n) = reminder_weekday d" by simp
  qed
  have "set (List.map_filter
               (\<lambda>part. case parse_nat part of None \<Rightarrow> None | Some n \<Rightarrow> scheduler_weekday n)
               (map (\<lambda>d. [digit_char (nat (d - 1))]) ds)) =
          {w. \<exists>d \<in> set ds. reminder_weekday d = Some w}"
    using each by (auto simp: List.map_filter_def) force+
  then show ?thesis
    by (simp add: trigger_weekdays_def weekday_trigger_def split)
qed

lemma create_cron_trigger_time:
  "trigger_hour (create_cron_trigger t freq days) = hour t
   \<and> trigger_minute (create_cron_trigger t freq days) = minute t
   \<and> trigger_second (create_cron_trigger t freq days) = second t"
  by (simp add: create_cron_trigger_def daily_trigger_def weekday_trigger_def)

text \<open>
  C7.  The trigger is a function of the time, the frequency and the weekdays alone.
  \<open>DAILY\<close> gives the every-day trigger whatever the weekdays; \<open>WEEKLY\<close> or \<open>CUSTOM\<close> with a
  non-empty weekday list gives a trigger at the same time whose \<^verbatim>\<open>day_of_week\<close> lists each
  day minus one, so that with days in 1..7 the scheduler fires on exactly those weekdays,
  1 being the scheduler's Monday; \<open>WEEKLY\<close> or \<open>CUSTOM\<close> with no weekdays gives the every-day
  trigger.
\<close>

theorem cron_trigger_cases:
  "create_cron_trigger t DAILY days = daily_trigger t
   \<and> trigger_weekdays (daily_trigger t) = UNIV
   \<and> ((freq = WEEKLY \<or> freq = CUSTOM) \<and> days = Some ds \<and> ds \<noteq> [] \<longrightarrow>
        create_cron_trigger t freq days = weekday_trigger (cron_days ds) t)
   \<and> ((freq = WEEKLY \<or> freq = CUSTOM) \<and> days = Some ds \<and> ds \<noteq> []
        \<and> (\<forall>d \<in> set ds. 1 \<le> d \<and> d \<le> 7) \<longrightarrow>
        trigger_weekdays (create_cron_trigger t freq days) =
          {w. \<exists>d \<in> set ds. reminder_weekday d = Some w})
   \<and> (days = None \<or> days = Some [] \<longrightarrow> create_cron_trigger t freq days = daily_trigger t)
   \<and> trigger_hour (create_cron_trigger t freq days) = hour t
   \<and> trigger_minute (create_cron_trigger t freq days) = minute t
   \<and> trigger_second (create_cron_trigger t freq days) = second t
   \<and> (\<forall>d. 1 \<le> d \<and> d \<le> 7 \<longrightarrow> scheduler_weekday (nat ((d - 1) mod 7)) = reminder_weekday d)
   \<and> reminder_weekday 1 = Some Mon \<and> scheduler_weekday 0 = Some Mon"
proof -
  have a: "create_cron_trigger t DAILY days = daily_trigger t"
    by (simp add: create_cron_trigger_def)
  have b: "trigger_weekdays (daily_trigger t) = UNIV"
    by (simp add: trigger_weekdays_def daily_trigger_def)
  have c: "(freq = WEEKLY \<or> freq = CUSTOM) \<and> days = Some ds \<and> ds \<noteq> [] \<longrightarrow>
        create_cron_trigger t freq days = weekday_trigger (cron_days ds) t"
    by (auto simp: create_cron_trigger_def list_truthy_def)
  have d: "(freq = WEEKLY \<or> freq = CUSTOM) \<and> days = Some ds \<and> ds \<noteq> []
        \<and> (\<forall>d \<in> set ds. 1 \<le> d \<and> d \<le> 7) \<longrightarrow>
        trigger_weekdays (create_cron_trigger t freq days) =
          {w. \<exists>d \<in> set ds. reminder_weekday d = Some w}"
    using c trigger_weekdays_cron_days [of ds t] by auto
  have e: "days = None \<or> days = Some [] \<longrightarrow> create_cron_trigger t freq days = daily_trigger t"
    by (auto simp: create_cron_trigger_def list_truthy_def)
  have f: "\<forall>d. 1 \<le> d \<and> d \<le> 7 \<longrightarrow> scheduler_weekday (nat ((d - 1) mod 7)) = reminder_weekday d"
    using weekday_numbering by blast
  have g: "reminder_weekday 1 = Some Mon \<and> scheduler_weekday 0 = Some Mon"
    by (simp add: reminder_weekday_def scheduler_weekday_def)
  from a b c d e f g create_cron_trigger_time [of t freq days] show ?thesis
    by blast
qed

theorem cron_trigger_cases_witness:
  "create_cron_trigger half_past_seven WEEKLY (Some [1, 3, 5]) =
     \<lparr> day_of_week = Some ''0,2,4'', trigger_hour = 7, trigger_minute = 30, trigger_second = 0 \<rparr>
   \<and> trigger_weekdays (create_cron_trigger half_past_seven WEEKLY (Some [1, 3, 5])) = {Mon, Wed, Fri}
   \<and> create_cron_trigger half_past_seven CUSTOM None =
     \<lparr> day_of_week = None, trigger_hour = 7, trigger_minute = 30, trigger_second = 0 \<rparr>
   \<and> scheduler_weekday (nat ((7 - 1) mod 7)) = Some Sun"
proof -
  have days: "\<forall>d \<in> set [1, 3, 5 :: int]. 1 \<le> d \<and> d \<le> 7" by simp
  have red: "{w. \<exists>d \<in> set [1, 3, 5 :: int]. reminder_weekday d = Some w} = {Mon, Wed, Fri}"
    by (auto simp: reminder_weekday_def)
  have cd: "cron_days [1, 3, 5] = ''0,2,4''"
    by (simp add: cron_days_def str_int_def str_nat.simps digit_char_def)
  note w = cron_trigger_cases [where t = half_past_seven and freq = WEEKLY
             and days = "Some [1, 3, 5]" and ds = "[1, 3, 5]"]
  note n = cron_trigger_cases [where t = half_past_seven and freq = CUSTOM and days = None]
  have 1: "create_cron_trigger half_past_seven WEEKLY (Some [1, 3, 5]) =
     \<lparr> day_of_week = Some ''0,2,4'', trigger_hour = 7, trigger_minute = 30, trigger_second = 0 \<rparr>"
    using w by (simp add: cd weekday_trigger_def half_past_seven_def)
  have 2: "trigger_weekdays (create_cron_trigger half_past_seven WEEKLY (Some [1, 3, 5])) =
     {Mon, Wed, Fri}"
  proof -
    have ne: "[1, 3, 5 :: int] \<noteq> []" by simp
    have "trigger_weekdays (create_cron_trigger half_past_seven WEEKLY (Some [1, 3, 5])) =
            {w. \<exists>d \<in> set [1, 3, 5 :: int]. reminder_weekday d = Some w}"
      using w days ne by blast
    then show ?thesis by (simp only: red)
  qed
  have 3: "create_cron_trigger half_past_seven CUSTOM None =
     \<lparr> day_of_week = None, trigger_hour = 7, trigger_minute = 30, trigger_second = 0 \<rparr>"
    using n by (simp add: daily_trigger_def half_past_seven_def)
  have 4: "scheduler_weekday (nat ((7 - 1) mod 7)) = Some Sun"
  proof -
    from w have "(1::int) \<le> 7 \<and> (7::int) \<le> 7 \<longrightarrow>
        scheduler_weekday (nat ((7 - 1) mod 7)) = reminder_weekday 7"
      by blast
    then show ?thesis by (simp add: reminder_weekday_def)
  qed
  from 1 2 3 4 show ?thesis by blast
qed

section \<open>Properties of the access checks\<close>

lemmas example_defs = shared_state_def alice_def bob_def carol_def dave_def morning_plan_def
  morning_run_def bob_membership_def morning_reminder_def

lemma find_SomeD: "find P xs = Some x \<Longrightarrow> P x \<and> x \<in> set xs"
  by (induction xs) (auto split: if_splits)

lemma find_NoneI: "(\<forall>x \<in> set xs. \<not> P x) \<Longrightarrow> find P xs = None"
  by (simp add: find_None_iff)

text \<open>
  C9.  Reading a plan as a user who is neither its owner nor a member of it fails with
  the same \<open>NotFoundException\<close>, message included, as reading a plan that does not exist.
\<close>

theorem unauthorised_read_not_found:
  "((\<forall>p \<in> set (plans st). plan_id p = pid \<longrightarrow> plan_user_id p \<noteq> uid) \<and> \<not> is_member st uid pid
      \<longrightarrow> get_plan_by_id st uid pid = Inl (NotFoundException ''Fitness plan not found''))
   \<and> ((\<forall>p \<in> set (plans st). plan_id p \<noteq> pid)
      \<longrightarrow> get_plan_by_id st uid pid = Inl (NotFoundException ''Fitness plan not found''))"
proof (intro conjI impI)
  assume h: "(\<forall>p \<in> set (plans st). plan_id p = pid \<longrightarrow> plan_user_id p \<noteq> uid) \<and> \<not> is_member st uid pid"
  then have "find (\<lambda>p. plan_id p = pid \<and> (plan_user_id p = uid \<or> is_member st uid (plan_id p))
                     \<and> deleted_at p = None) (plans st) = None"
    by (intro find_NoneI) auto
  then show "get_plan_by_id st uid pid = Inl (NotFoundException ''Fitness plan not found'')"
    by (simp add: get_plan_by_id_def)
next
  assume h: "\<forall>p \<in> set (plans st). plan_id p \<noteq> pid"
  then have "find (\<lambda>p. plan_id p = pid \<and> (plan_user_id p = uid \<or> is_member st uid (plan_id p))
                     \<and> deleted_at p = None) (plans st) = None"
    by (intro find_NoneI) auto
  then show "get_plan_by_id st uid pid = Inl (NotFoundException ''Fitness plan not found'')"
    by (simp add: get_plan_by_id_def)
qed

theorem unauthorised_read_not_found_witness:
  "map plan_id (plans shared_state) = [10] \<and> map plan_user_id (plans shared_state) = [1]
   \<and> \<not> is_member shared_state 3 10
   \<and> get_plan_by_id shared_state 3 10 = Inl (NotFoundException ''Fitness plan not found'')
   \<and> get_plan_by_id shared_state 3 11 = Inl (NotFoundException ''Fitness plan not found'')
   \<and> get_plan_by_id shared_state 1 10 = Inr morning_plan
   \<and> get_plan_by_id shared_state 2 10 = Inr morning_plan"
proof -
  have a: "(\<forall>p \<in> set (plans shared_state). plan_id p = 10 \<longrightarrow> plan_user_id p \<noteq> 3)
            \<and> \<not> is_member shared_state 3 10"
    by (simp add: example_defs is_member_def)
  have b: "\<forall>p \<in> set (plans shared_state). plan_id p \<noteq> 11"
    by (simp add: example_defs)
  have c: "get_plan_by_id shared_state 1 10 = Inr morning_plan"
    by (simp add: get_plan_by_id_def example_defs is_member_def)
  have d: "get_plan_by_id shared_state 2 10 = Inr morning_plan"
    by (simp add: get_plan_by_id_def example_defs is_member_def)
  have e: "map plan_id (plans shared_state) = [10] \<and> map plan_user_id (plans shared_state) = [1]"
    by (simp add: example_defs)
  from a b c d e unauthorised_read_not_found [of shared_state 10 3]
    unauthorised_read_not_found [of shared_state 11 3]
  show ?thesis by blast
qed

lemma invite_member_success:
  assumes "find (\<lambda>p. plan_id p = pid) (plans st) = Some plan"
    and "find (\<lambda>u. email u = invitee_email) (users st) = Some invitee"
    and "\<forall>m \<in> set (members st). \<not> (member_plan_id m = pid \<and> member_user_id m = user_id invitee)"
  shows "invite_member st pid inviter invitee_email =
          Inr (st\<lparr>members := members st @
                   [\<lparr> member_id = next_uuid st, member_plan_id = pid,
                      member_user_id = user_id invitee, invited_by = Some inviter \<rparr>],
                 next_uuid := next_uuid st + 1\<rparr>,
               \<lparr> member_id = next_uuid st, member_plan_id = pid,
                 member_user_id = user_id invitee, invited_by = Some inviter \<rparr>)"
proof -
  have "find (\<lambda>m. member_plan_id m = pid \<and> member_user_id m = user_id invitee) (members st) = None"
    using assms(3) by (intro find_NoneI) auto
  then show ?thesis
    using assms(1,2) by (simp add: invite_member_def Let_def)
qed

lemma invite_member_errors:
  "invite_member st pid inviter invitee_email = Inl err \<Longrightarrow>
          err = NotFoundException ''Plan not found''
        \<or> err = NotFoundException (''User with email '' @ invitee_email @ '' not found'')
        \<or> err = AppException ''User is already a member of this plan'' ''ALREADY_MEMBER'' 400"
  by (auto simp: invite_member_def Let_def split: option.splits)

lemma invite_member_any_inviter:
  "isl (invite_member st pid inviter invitee_email) = isl (invite_member st pid other invitee_email)"
  by (simp add: invite_member_def Let_def split: option.splits)

text \<open>
  C10.  \<^verbatim>\<open>invite_member\<close> never looks at the inviter: whoever invites, an existing user who
  is not yet a member of an existing plan becomes one, the new row recording the inviter;
  the only failures are the two \<open>NotFoundException\<close>s (plan, invitee) and the
  already-member \<open>AppException\<close>, and whether the call fails does not depend on the inviter.
\<close>

theorem invite_ignores_inviter:
  "(find (\<lambda>p. plan_id p = pid) (plans st) = Some plan
      \<and> find (\<lambda>u. email u = invitee_email) (users st) = Some invitee
      \<and> (\<forall>m \<in> set (members st). \<not> (member_plan_id m = pid \<and> member_user_id m = user_id invitee))
    \<longrightarrow> invite_member st pid inviter invitee_email =
          Inr (st\<lparr>members := members st @
                   [\<lparr> member_id = next_uuid st, member_plan_id = pid,
                      member_user_id = user_id invitee, invited_by = Some inviter \<rparr>],
                 next_uuid := next_uuid st + 1\<rparr>,
               \<lparr> member_id = next_uuid st, member_plan_id = pid,
                 member_user_id = user_id invitee, invited_by = Some inviter \<rparr>))
   \<and> (\<forall>err. invite_member st pid inviter invitee_email = Inl err \<longrightarrow>
          err = NotFoundException ''Plan not found''
        \<or> err = NotFoundException (''User with email '' @ invitee_email @ '' not found'')
        \<or> err = AppException ''User is already a member of this plan'' ''ALREADY_MEMBER'' 400)
   \<and> (isl (invite_member st pid inviter invitee_email) = isl (invite_member st pid other invitee_email))"
  using invite_member_success [of pid st plan invitee_email invitee inviter]
        invite_member_errors [of st pid inviter invitee_email]
        invite_member_any_inviter [of st pid inviter invitee_email other]
  by blast

theorem invite_ignores_inviter_witness:
  "find (\<lambda>p. plan_id p = 10) (plans shared_state) = Some morning_plan
   \<and> plan_user_id morning_plan \<noteq> 3 \<and> \<not> is_member shared_state 3 10
   \<and> find (\<lambda>u. email u = ''dave@example.com'') (users shared_state) = Some dave
   \<and> members shared_state = [bob_membership] \<and> member_user_id bob_membership = 2
   \<and> user_id dave = 4
   \<and> invite_member shared_state 10 3 ''dave@example.com'' =
        Inr (shared_state\<lparr>members := [bob_membership,
               \<lparr> member_id = 100, member_plan_id = 10, member_user_id = 4, invited_by = Some 3 \<rparr>],
               next_uuid := 101\<rparr>,
             \<lparr> member_id = 100, member_plan_id = 10, member_user_id = 4, invited_by = Some 3 \<rparr>)"
proof -
  have a: "find (\<lambda>p. plan_id p = 10) (plans shared_state) = Some morning_plan"
    by (simp add: example_defs)
  have b: "plan_user_id morning_plan \<noteq> 3 \<and> \<not> is_member shared_state 3 10"
    by (simp add: example_defs is_member_def)
  have c: "find (\<lambda>u. email u = ''dave@example.com'') (users shared_state) = Some dave"
    by (simp add: example_defs)
  have d: "\<forall>m \<in> set (members shared_state). \<not> (member_plan_id m = 10 \<and> member_user_id m = user_id dave)"
    by (simp add: example_defs)
  have "invite_member shared_state 10 3 ''dave@example.com'' =
          Inr (shared_state\<lparr>members := members shared_state @
                   [\<lparr> member_id = next_uuid shared_state, member_plan_id = 10,
                      member_user_id = user_id dave, invited_by = Some 3 \<rparr>],
                 next_uuid := next_uuid shared_state + 1\<rparr>,
               \<lparr> member_id = next_uuid shared_state, member_plan_id = 10,
                 member_user_id = user_id dave, invited_by = Some 3 \<rparr>)"
    using a c d invite_ignores_inviter [of 10 shared_state morning_plan "''dave@example.com''" dave 3] by blast
  then have e: "invite_member shared_state 10 3 ''dave@example.com'' =
        Inr (shared_state\<lparr>members := [bob_membership,
               \<lparr> member_id = 100, member_plan_id = 10, member_user_id = 4, invited_by = Some 3 \<rparr>],
               next_uuid := 101\<rparr>,
             \<lparr> member_id = 100, member_plan_id = 10, member_user_id = 4, invited_by = Some 3 \<rparr>)"
    by (simp add: shared_state_def dave_def)
  have f: "members shared_state = [bob_membership] \<and> member_user_id bob_membership = 2
             \<and> user_id dave = 4"
    by (simp add: example_defs)
  from a b c e f show ?thesis by blast
qed

lemma find_Some_ex: "\<exists>x \<in> set xs. P x \<Longrightarrow> \<exists>y. find P xs = Some y"
  by (cases "find P xs") (auto simp: find_None_iff)

lemma non_owner_no_owned_plan:
  assumes "\<forall>p \<in> set (plans st). plan_id p = pid \<longrightarrow> plan_user_id p \<noteq> uid"
  shows "owned_plan st uid pid = None"
  unfolding owned_plan_def using assms by (intro find_NoneI) auto

lemma non_owner_no_exercise:
  assumes "\<forall>p \<in> set (plans st). plan_id p = pid \<longrightarrow> plan_user_id p \<noteq> uid"
  shows "fetch_exercise st uid pid eid = None"
  unfolding fetch_exercise_def using assms by (intro find_NoneI) auto

lemma non_owner_no_reminder:
  assumes "\<forall>p \<in> set (plans st). plan_id p = pid \<longrightarrow> plan_user_id p \<noteq> uid"
  shows "fetch_reminder st uid pid rid = None"
  unfolding fetch_reminder_def using assms by (intro find_NoneI) auto

lemma non_owner_content_writes_not_found:
  assumes "\<forall>p \<in> set (plans st). plan_id p = pid \<longrightarrow> plan_user_id p \<noteq> uid"
  shows "add_exercise st uid pid exercise_data = Inl (NotFoundException ''Fitness plan not found'')"
    and "update_exercise st uid pid eid exercise_update = Inl (NotFoundException ''Exercise not found'')"
    and "delete_exercise st uid pid eid = Inl (NotFoundException ''Exercise not found'')"
    and "create_reminder st scheduler uid pid reminder_data = Inl (NotFoundException ''Fitness plan not found'')"
    and "update_reminder st scheduler uid pid rid reminder_update = Inl (NotFoundException ''Reminder not found'')"
    and "delete_reminder st scheduler uid pid rid = Inl (NotFoundException ''Reminder not found'')"
  using non_owner_no_owned_plan [OF assms] non_owner_no_exercise [OF assms]
        non_owner_no_reminder [OF assms]
  by (simp_all add: add_exercise_def update_exercise_def delete_exercise_def
        create_reminder_def update_reminder_def delete_reminder_def)

lemma owner_plan_writes_succeed:
  assumes "p \<in> set (plans st)" "plan_id p = pid" "plan_user_id p = uid" "deleted_at p = None"
  shows "\<not> isl (update_plan st uid pid plan_data)"
    and "\<not> isl (delete_plan st uid pid scheduler now)"
    and "\<not> isl (add_exercise st uid pid exercise_data)"
    and "\<not> isl (create_reminder st scheduler uid pid reminder_data)"
proof -
  have "\<exists>y. find (\<lambda>p. plan_id p = pid \<and> (plan_user_id p = uid \<or> is_member st uid (plan_id p))
                     \<and> deleted_at p = None) (plans st) = Some y"
    using assms by (intro find_Some_ex) auto
  then obtain y where y: "get_plan_by_id st uid pid = Inr y"
    by (auto simp: get_plan_by_id_def)
  have "\<exists>y. owned_plan st uid pid = Some y"
    unfolding owned_plan_def using assms by (intro find_Some_ex) auto
  then obtain z where z: "owned_plan st uid pid = Some z" by blast
  show "\<not> isl (update_plan st uid pid plan_data)" using y by (simp add: update_plan_def)
  show "\<not> isl (delete_plan st uid pid scheduler now)" using y by (simp add: delete_plan_def Let_def)
  show "\<not> isl (add_exercise st uid pid exercise_data)" using z by (simp add: add_exercise_def)
  show "\<not> isl (create_reminder st scheduler uid pid reminder_data)"
    using z by (simp add: create_reminder_def Let_def)
qed

text \<open>
  C2.  Only the owner may write a plan and its contents.  The exercise and reminder
  services keep to this (\<open>non_owner_content_writes_not_found\<close>), the plan service does
  not: \<^verbatim>\<open>update_plan\<close> and \<^verbatim>\<open>delete_plan\<close> fetch the plan through \<^verbatim>\<open>get_plan_by_id\<close>, which
  admits members.  Bob, a member of Alice's plan, renames it and deletes it.
\<close>

theorem member_updates_and_deletes_plan:
  "plan_user_id morning_plan \<noteq> 2 \<and> is_member shared_state 2 10
   \<and> update_plan shared_state 2 10 rename_plan =
       Inr (shared_state\<lparr>plans := [morning_plan\<lparr>plan_name := ''Taken over''\<rparr>]\<rparr>)
   \<and> delete_plan shared_state 2 10 False 99 =
       Inr (shared_state\<lparr>plans := [morning_plan\<lparr>deleted_at := Some 99\<rparr>]\<rparr>)"
  by (simp add: update_plan_def delete_plan_def get_plan_by_id_def is_member_def example_defs
        rename_plan_def apply_plan_update_def replace_row_def)


section \<open>The exercise set of a plan\<close>

lemma plans_nonempty_same:
  "plans st' = plans st \<Longrightarrow> exercises st' = exercises st \<Longrightarrow> plans_nonempty st \<Longrightarrow> plans_nonempty st'"
  by (simp add: plans_nonempty_def exercise_count_def)

lemma validate_each_Inr: "validate_each es = Inr es' \<Longrightarrow> es' = es"
  by (induction es arbitrary: es')
     (auto simp: check_duration_or_reps_def split: if_splits sum.splits)

lemma validate_FitnessPlanCreate_Inr:
  "validate_FitnessPlanCreate plan_data = Inr v \<Longrightarrow> v = plan_data \<and> pc_exercises v \<noteq> []"
  by (auto simp: validate_FitnessPlanCreate_def validate_exercises_not_empty_def
        split: sum.splits if_splits dest!: validate_each_Inr)

lemma plans_add_exercises: "plans (add_exercises st pid xs) = plans st"
  by (induction st pid xs rule: add_exercises.induct) simp_all

lemma count_add_exercises:
  "exercise_count (add_exercises st pid xs) q =
     exercise_count st q + (if q = pid then length xs else 0)"
  by (induction st pid xs rule: add_exercises.induct)
     (simp_all add: exercise_count_def new_exercise_def)

lemma create_plan_preserves:
  assumes "plans_nonempty st" "pc_exercises v \<noteq> []"
  shows "plans_nonempty (create_plan st uid v)"
proof -
  define plan where "plan = \<lparr> plan_id = next_uuid st, plan_user_id = uid, plan_name = pc_name v,
                     plan_description = pc_description v, deleted_at = None \<rparr>"
  define st1 where "st1 = st\<lparr>plans := plans st @ [plan], next_uuid := next_uuid st + 1\<rparr>"
  have cp: "create_plan st uid v = add_exercises st1 (next_uuid st) (pc_exercises v)"
    by (simp add: create_plan_def Let_def st1_def plan_def)
  have pl: "plans (create_plan st uid v) = plans st @ [plan]"
    by (simp add: cp plans_add_exercises st1_def)
  have c1: "exercise_count st1 q = exercise_count st q" for q
    by (simp add: exercise_count_def st1_def)
  have cnt: "exercise_count (create_plan st uid v) q =
        exercise_count st q + (if q = next_uuid st then length (pc_exercises v) else 0)" for q
    by (simp add: cp count_add_exercises c1)
  have len: "1 \<le> length (pc_exercises v)"
    using assms(2) by (cases "pc_exercises v") simp_all
  show ?thesis
    unfolding plans_nonempty_def
  proof (intro ballI impI)
    fix p assume p: "p \<in> set (plans (create_plan st uid v))" and nd: "deleted_at p = None"
    from p pl have "p \<in> set (plans st) \<or> p = plan" by auto
    then show "1 \<le> exercise_count (create_plan st uid v) (plan_id p)"
    proof
      assume "p \<in> set (plans st)"
      then have "1 \<le> exercise_count st (plan_id p)"
        using assms(1) nd by (simp add: plans_nonempty_def)
      then show ?thesis using cnt [of "plan_id p"] by simp
    next
      assume "p = plan"
      then have "plan_id p = next_uuid st" by (simp add: plan_def)
      then have "exercise_count (create_plan st uid v) (plan_id p) =
          exercise_count st (plan_id p) + length (pc_exercises v)"
        using cnt [of "plan_id p"] by simp
      with len show ?thesis by linarith
    qed
  qed
qed

lemma get_plan_by_id_Inr:
  "get_plan_by_id st uid pid = Inr plan \<Longrightarrow>
     plan \<in> set (plans st) \<and> plan_id plan = pid \<and> deleted_at plan = None"
  by (auto simp: get_plan_by_id_def split: option.splits dest!: find_SomeD)

lemma apply_plan_update_keeps:
  "plan_id (apply_plan_update plan_data plan) = plan_id plan
   \<and> deleted_at (apply_plan_update plan_data plan) = deleted_at plan"
  by (simp add: apply_plan_update_def Let_def split: option.splits)

lemma update_plan_preserves:
  assumes "plans_nonempty st" "update_plan st uid pid plan_data = Inr st'"
  shows "plans_nonempty st'"
proof -
  from assms(2) obtain plan where g: "get_plan_by_id st uid pid = Inr plan"
    and st': "st' = st\<lparr>plans := replace_row plan (apply_plan_update plan_data plan) (plans st)\<rparr>"
    by (auto simp: update_plan_def split: sum.splits)
  from get_plan_by_id_Inr [OF g] assms(1) have c: "1 \<le> exercise_count st (plan_id plan)"
    by (auto simp: plans_nonempty_def)
  show ?thesis
    using assms(1) c apply_plan_update_keeps [of plan_data plan]
    by (auto simp: st' plans_nonempty_def replace_row_def exercise_count_def split: if_splits)
qed

lemma delete_plan_preserves:
  assumes "plans_nonempty st" "delete_plan st uid pid scheduler now = Inr st'"
  shows "plans_nonempty st'"
proof -
  from assms(2) obtain plan js where
    st': "st' = st\<lparr>plans := replace_row plan (plan\<lparr>deleted_at := Some now\<rparr>) (plans st), jobs := js\<rparr>"
    by (auto simp: delete_plan_def Let_def split: sum.splits)
  show ?thesis
    using assms(1)
    by (auto simp: st' plans_nonempty_def replace_row_def exercise_count_def split: if_splits)
qed

lemma add_exercise_preserves:
  assumes "plans_nonempty st" "add_exercise st uid pid exercise_data = Inr st'"
  shows "plans_nonempty st'"
  using assms
  by (auto simp: add_exercise_def plans_nonempty_def exercise_count_def split: option.splits)

lemma fetch_exercise_Some:
  "fetch_exercise st uid pid eid = Some e \<Longrightarrow>
     e \<in> set (exercises st) \<and> exercise_id e = eid \<and> exercise_plan_id e = pid"
  by (auto simp: fetch_exercise_def dest!: find_SomeD)

lemma apply_exercise_update_keeps:
  "exercise_plan_id (apply_exercise_update exercise_data e) = exercise_plan_id e"
  by (simp add: apply_exercise_update_def Let_def split: option.splits)

lemma filter_replace_row_length:
  "P new = P old \<Longrightarrow> length (filter P (replace_row old new rows)) = length (filter P rows)"
  by (induction rows) (auto simp: replace_row_def)

lemma update_exercise_preserves:
  assumes "plans_nonempty st" "update_exercise st uid pid eid exercise_data = Inr st'"
  shows "plans_nonempty st'"
proof -
  from assms(2) obtain e where
    st': "st' = st\<lparr>exercises := replace_row e (apply_exercise_update exercise_data e) (exercises st)\<rparr>"
    by (auto simp: update_exercise_def split: option.splits)
  have "exercise_count st' q = exercise_count st q" for q
    unfolding exercise_count_def st'
    using filter_replace_row_length [of "\<lambda>x. exercise_plan_id x = q"
            "apply_exercise_update exercise_data e" e "exercises st"]
    by (simp add: apply_exercise_update_keeps)
  then show ?thesis using assms(1) by (simp add: plans_nonempty_def st')
qed

lemma filter_length_pos: "x \<in> set xs \<Longrightarrow> P x \<Longrightarrow> 1 \<le> length (filter P xs)"
  by (induction xs) auto

lemma filter_remove1_length:
  "x \<in> set xs \<Longrightarrow>
     length (filter P (remove1 x xs)) = length (filter P xs) - (if P x then 1 else 0)"
proof (induction xs)
  case Nil
  then show ?case by simp
next
  case (Cons a xs)
  show ?case
  proof (cases "x = a")
    case True
    then show ?thesis by simp
  next
    case False
    with Cons.prems have mem: "x \<in> set xs" by simp
    from Cons.IH [OF mem] filter_length_pos [OF mem, of P] False
    show ?thesis by (cases "P x") auto
  qed
qed

lemma delete_exercise_preserves:
  assumes "plans_nonempty st" "delete_exercise st uid pid eid = Inr st'"
  shows "plans_nonempty st'"
proof -
  from assms(2) obtain e where f: "fetch_exercise st uid pid eid = Some e"
    and many: "\<not> exercise_count st pid \<le> 1"
    and st': "st' = st\<lparr>exercises := remove1 e (exercises st)\<rparr>"
    by (auto simp: delete_exercise_def split: option.splits if_splits)
  from fetch_exercise_Some [OF f] have mem: "e \<in> set (exercises st)"
    and ep: "exercise_plan_id e = pid" by auto
  have cnt: "exercise_count st' q = exercise_count st q - (if q = pid then 1 else 0)" for q
    unfolding exercise_count_def st'
    using filter_remove1_length [OF mem, of "\<lambda>x. exercise_plan_id x = q"] ep by auto
  show ?thesis
    unfolding plans_nonempty_def
  proof (intro ballI impI)
    fix p assume p: "p \<in> set (plans st')" and nd: "deleted_at p = None"
    then have "1 \<le> exercise_count st (plan_id p)"
      using assms(1) by (simp add: plans_nonempty_def st')
    then show "1 \<le> exercise_count st' (plan_id p)"
      using cnt [of "plan_id p"] many by auto
  qed
qed

lemma reminder_member_steps_preserve:
  assumes "plans_nonempty st"
  shows "create_reminder st scheduler uid pid reminder_data = Inr st' \<Longrightarrow> plans_nonempty st'"
    and "update_reminder st scheduler uid pid rid reminder_update = Inr st' \<Longrightarrow> plans_nonempty st'"
    and "delete_reminder st scheduler uid pid rid = Inr st' \<Longrightarrow> plans_nonempty st'"
    and "invite_member st pid inviter invitee_email = Inr (st', member) \<Longrightarrow> plans_nonempty st'"
    and "remove_member st pid uid = Inr st' \<Longrightarrow> plans_nonempty st'"
proof -
  show "create_reminder st scheduler uid pid reminder_data = Inr st' \<Longrightarrow> plans_nonempty st'"
    using assms by (auto simp: create_reminder_def Let_def split: option.splits
                          intro!: plans_nonempty_same [of _ st])
  show "update_reminder st scheduler uid pid rid reminder_update = Inr st' \<Longrightarrow> plans_nonempty st'"
    using assms by (auto simp: update_reminder_def Let_def split: option.splits if_splits
                          intro!: plans_nonempty_same [of _ st])
  show "delete_reminder st scheduler uid pid rid = Inr st' \<Longrightarrow> plans_nonempty st'"
    using assms by (auto simp: delete_reminder_def Let_def split: option.splits
                          intro!: plans_nonempty_same [of _ st])
  show "invite_member st pid inviter invitee_email = Inr (st', member) \<Longrightarrow> plans_nonempty st'"
    using assms by (auto simp: invite_member_def Let_def split: option.splits
                          intro!: plans_nonempty_same [of _ st])
  show "remove_member st pid uid = Inr st' \<Longrightarrow> plans_nonempty st'"
    using assms by (auto simp: remove_member_def split: option.splits
                          intro!: plans_nonempty_same [of _ st])
qed

lemma step_preserves:
  assumes "plans_nonempty st" "step st op = Inr st'"
  shows "plans_nonempty st'"
proof (cases op)
  case (CreatePlan uid plan_data)
  with assms(2) obtain v where v: "validate_FitnessPlanCreate plan_data = Inr v"
    and st': "st' = create_plan st uid v"
    by (auto simp: create_fitness_plan_def split: sum.splits)
  from validate_FitnessPlanCreate_Inr [OF v] have "pc_exercises v \<noteq> []" by blast
  then show ?thesis using create_plan_preserves [OF assms(1)] st' by simp
next
  case (UpdatePlan uid pid plan_data)
  then show ?thesis using assms update_plan_preserves by auto
next
  case (DeletePlan uid pid scheduler now)
  then show ?thesis using assms delete_plan_preserves by auto
next
  case (AddExercise uid pid exercise_data)
  then show ?thesis using assms add_exercise_preserves by auto
next
  case (UpdateExercise uid pid eid exercise_data)
  then show ?thesis using assms update_exercise_preserves by auto
next
  case (DeleteExercise uid pid eid)
  then show ?thesis using assms delete_exercise_preserves by auto
next
  case (CreateReminder scheduler uid pid reminder_data)
  then show ?thesis using assms reminder_member_steps_preserve(1) by auto
next
  case (UpdateReminder scheduler uid pid rid reminder_data)
  then show ?thesis using assms reminder_member_steps_preserve(2) by auto
next
  case (DeleteReminder scheduler uid pid rid)
  then show ?thesis using assms reminder_member_steps_preserve(3) by auto
next
  case (InviteMember pid inviter invitee_email)
  then show ?thesis using assms reminder_member_steps_preserve(4) [of st pid inviter invitee_email st']
    by (auto split: sum.splits)
next
  case (RemoveMember pid uid)
  then show ?thesis using assms reminder_member_steps_preserve(5) by auto
qed

lemma run_preserves:
  "plans_nonempty st \<Longrightarrow> run st ops = Inr st' \<Longrightarrow> plans_nonempty st'"
proof (induction ops arbitrary: st)
  case Nil
  then show ?case by simp
next
  case (Cons op ops)
  then show ?case
    by (auto split: sum.splits dest: step_preserves)
qed

lemma owner_last_exercise:
  assumes "p \<in> set (plans st)" "plan_id p = pid" "plan_user_id p = uid" "deleted_at p = None"
    and "e \<in> set (exercises st)" "exercise_id e = eid" "exercise_plan_id e = pid"
    and "exercise_count st pid = 1"
  shows "delete_exercise st uid pid eid = Inl (BusinessRuleViolationException
     ''Cannot delete the last exercise from a plan. A plan must have at least one exercise.'')"
proof -
  have "\<exists>y. fetch_exercise st uid pid eid = Some y"
    unfolding fetch_exercise_def
    by (intro find_Some_ex bexI [of _ e]) (use assms(1-7) in auto)
  then show ?thesis using assms(8) by (auto simp: delete_exercise_def)
qed


lemma lifecycle_run: "run empty_state lifecycle_ops = Inr lifecycle_state"
  by (simp add: lifecycle_ops_def lifecycle_state_def empty_state_def two_exercise_plan_def lunge_def
        create_fitness_plan_def validate_FitnessPlanCreate_def check_duration_or_reps_def
        validate_exercises_not_empty_def create_plan_def Let_def add_exercise_def owned_plan_def
        delete_exercise_def fetch_exercise_def exercise_count_def new_exercise_def)

text \<open>
  C3, as the code has it.  When the plan's owner deletes the only exercise of a plan that
  is not deleted, \<^verbatim>\<open>delete_exercise\<close> raises \<open>BusinessRuleViolationException\<close>, and nothing is
  written.  Every sequence of successful operations that starts in a state where each
  plan that is not deleted has an exercise ends in such a state; the empty state is one.
\<close>

theorem owner_cannot_delete_last_exercise:
  "(p \<in> set (plans st) \<and> plan_id p = pid \<and> plan_user_id p = uid \<and> deleted_at p = None
      \<and> e \<in> set (exercises st) \<and> exercise_id e = eid \<and> exercise_plan_id e = pid
      \<and> exercise_count st pid = 1
    \<longrightarrow> delete_exercise st uid pid eid = Inl (BusinessRuleViolationException
     ''Cannot delete the last exercise from a plan. A plan must have at least one exercise.''))
   \<and> (plans_nonempty st \<and> run st ops = Inr st' \<longrightarrow> plans_nonempty st')
   \<and> plans_nonempty empty_state"
  using owner_last_exercise [of p st pid uid e eid] run_preserves [of st ops st']
  by (auto simp: plans_nonempty_def empty_state_def)

theorem owner_cannot_delete_last_exercise_witness:
  "run empty_state lifecycle_ops = Inr lifecycle_state
   \<and> 1 \<le> exercise_count lifecycle_state 0
   \<and> delete_exercise lifecycle_state 1 0 3 = Inl (BusinessRuleViolationException
     ''Cannot delete the last exercise from a plan. A plan must have at least one exercise.'')"
proof -
  note t = owner_cannot_delete_last_exercise [where st = lifecycle_state and pid = 0 and uid = 1 and eid = 3
     and p = "\<lparr> plan_id = 0, plan_user_id = 1, plan_name = ''Strength'',
                  plan_description = None, deleted_at = None \<rparr>"
     and e = "new_exercise 3 0 lunge"]
  note i = owner_cannot_delete_last_exercise [where st = empty_state and ops = lifecycle_ops and st' = lifecycle_state]
  from i lifecycle_run have "plans_nonempty lifecycle_state" by blast
  then have a: "1 \<le> exercise_count lifecycle_state 0"
    by (simp add: plans_nonempty_def lifecycle_state_def)
  have h: "exercise_count lifecycle_state 0 = 1"
    by (simp add: exercise_count_def lifecycle_state_def new_exercise_def)
  have b: "delete_exercise lifecycle_state 1 0 3 = Inl (BusinessRuleViolationException
     ''Cannot delete the last exercise from a plan. A plan must have at least one exercise.'')"
    using t h by (simp add: lifecycle_state_def new_exercise_def)
  from lifecycle_run a b show ?thesis by blast
qed

text \<open>
  C3, as stated, for every caller: Bob, a member but not the owner of Alice's plan, asks
  to delete its only exercise and gets \<open>NotFoundException\<close>, since the ownership query
  comes before the count.
\<close>

theorem member_delete_last_exercise_not_found:
  "deleted_at morning_plan = None \<and> plans shared_state = [morning_plan]
   \<and> exercises shared_state = [morning_run]
   \<and> exercise_count shared_state 10 = 1
   \<and> delete_exercise shared_state 2 10 20 = Inl (NotFoundException ''Exercise not found'')"
  by (simp add: delete_exercise_def fetch_exercise_def exercise_count_def example_defs)


section \<open>Properties of the leaderboard\<close>

subsection \<open>The rank loops\<close>

lemma length_set_completion_rate_ranks:
  "length (set_completion_rate_ranks i refs store) = length store"
  by (induction i refs store rule: set_completion_rate_ranks.induct) simp_all

lemma length_set_execution_count_ranks:
  "length (set_execution_count_ranks i refs store) = length store"
  by (induction i refs store rule: set_execution_count_ranks.induct) simp_all

lemma untouched_completion_rate_ranks:
  "j \<notin> set refs \<Longrightarrow> set_completion_rate_ranks i refs store ! j = store ! j"
  by (induction i refs store rule: set_completion_rate_ranks.induct) auto

lemma untouched_execution_count_ranks:
  "j \<notin> set refs \<Longrightarrow> set_execution_count_ranks i refs store ! j = store ! j"
  by (induction i refs store rule: set_execution_count_ranks.induct) auto

lemma nth_completion_rate_ranks:
  "distinct refs \<Longrightarrow> \<forall>r \<in> set refs. r < length store \<Longrightarrow> k < length refs \<Longrightarrow>
     completion_rate_rank (set_completion_rate_ranks i refs store ! (refs ! k)) = i + k"
proof (induction i refs store arbitrary: k rule: set_completion_rate_ranks.induct)
  case (1 i store)
  then show ?case by simp
next
  case (2 i entry rest store)
  show ?case
  proof (cases k)
    case 0
    have "entry \<notin> set rest" using "2.prems"(1) by simp
    then show ?thesis
      using 0 "2.prems"(2) by (simp add: untouched_completion_rate_ranks)
  next
    case (Suc k')
    then show ?thesis
      using "2.IH" [of k'] "2.prems" by simp
  qed
qed

lemma nth_execution_count_ranks:
  "distinct refs \<Longrightarrow> \<forall>r \<in> set refs. r < length store \<Longrightarrow> k < length refs \<Longrightarrow>
     execution_count_rank (set_execution_count_ranks i refs store ! (refs ! k)) = i + k"
proof (induction i refs store arbitrary: k rule: set_execution_count_ranks.induct)
  case (1 i store)
  then show ?case by simp
next
  case (2 i entry rest store)
  show ?case
  proof (cases k)
    case 0
    have "entry \<notin> set rest" using "2.prems"(1) by simp
    then show ?thesis
      using 0 "2.prems"(2) by (simp add: untouched_execution_count_ranks)
  next
    case (Suc k')
    then show ?thesis
      using "2.IH" [of k'] "2.prems" by simp
  qed
qed

text \<open>
  The rank loops write the rank fields only.
\<close>

lemma completion_rate_ranks_keep:
  "j < length store \<Longrightarrow>
     avg_completion_rate (set_completion_rate_ranks i refs store ! j) = avg_completion_rate (store ! j)
   \<and> le_total_executions (set_completion_rate_ranks i refs store ! j) = le_total_executions (store ! j)
   \<and> le_user_id (set_completion_rate_ranks i refs store ! j) = le_user_id (store ! j)
   \<and> last_execution_date (set_completion_rate_ranks i refs store ! j) = last_execution_date (store ! j)"
proof (induction i refs store rule: set_completion_rate_ranks.induct)
  case (1 i store)
  then show ?case by simp
next
  case (2 i entry rest store)
  then show ?case by (cases "entry = j") simp_all
qed

lemma execution_count_ranks_keep:
  "j < length store \<Longrightarrow>
     avg_completion_rate (set_execution_count_ranks i refs store ! j) = avg_completion_rate (store ! j)
   \<and> le_total_executions (set_execution_count_ranks i refs store ! j) = le_total_executions (store ! j)
   \<and> le_user_id (set_execution_count_ranks i refs store ! j) = le_user_id (store ! j)
   \<and> last_execution_date (set_execution_count_ranks i refs store ! j) = last_execution_date (store ! j)
   \<and> completion_rate_rank (set_execution_count_ranks i refs store ! j) = completion_rate_rank (store ! j)"
proof (induction i refs store rule: set_execution_count_ranks.induct)
  case (1 i store)
  then show ?case by simp
next
  case (2 i entry rest store)
  then show ?case by (cases "entry = j") simp_all
qed

lemma sorted_by_rate_perm:
  "distinct (sorted_by_rate lb) \<and> set (sorted_by_rate lb) = {0..<length lb}
   \<and> length (sorted_by_rate lb) = length lb"
  by (simp add: sorted_by_rate_def)

lemma sorted_by_count_perm:
  "distinct (sorted_by_count lb) \<and> set (sorted_by_count lb) = {0..<length lb}
   \<and> length (sorted_by_count lb) = length lb"
  by (simp add: sorted_by_count_def)

lemma sorted_by_rate_sorted:
  "sorted (map (\<lambda>r. - avg_completion_rate (lb ! r)) (sorted_by_rate lb))"
  by (simp add: sorted_by_rate_def)

lemma sorted_by_count_sorted:
  "sorted (map (\<lambda>r. - int (le_total_executions (lb ! r))) (sorted_by_count lb))"
  by (simp add: sorted_by_count_def)


lemma rank_leaderboard_length: "length (rank_leaderboard lb) = length lb"
  by (simp add: rank_leaderboard_def Let_def sorted_by_rate_perm)

lemma rank_leaderboard_nth:
  assumes "k < length lb"
  shows "rank_leaderboard lb ! k =
     set_execution_count_ranks 1
       (sorted_by_count (set_completion_rate_ranks 1 (sorted_by_rate lb) lb))
       (set_completion_rate_ranks 1 (sorted_by_rate lb) lb) ! (sorted_by_rate lb ! k)"
  using assms by (simp add: rank_leaderboard_def Let_def sorted_by_rate_perm)

lemma sorted_by_rate_nth_less:
  "k < length lb \<Longrightarrow> sorted_by_rate lb ! k < length lb"
proof -
  assume "k < length lb"
  then have "sorted_by_rate lb ! k \<in> set (sorted_by_rate lb)"
    using nth_mem [of k "sorted_by_rate lb"] sorted_by_rate_perm [of lb] by simp
  then show ?thesis using sorted_by_rate_perm [of lb] by simp
qed

lemma rank_leaderboard_completion_rate_rank:
  assumes "k < length lb"
  shows "completion_rate_rank (rank_leaderboard lb ! k) = 1 + k"
proof -
  let ?br = "sorted_by_rate lb"
  let ?s1 = "set_completion_rate_ranks 1 ?br lb"
  have r: "?br ! k < length ?s1"
    using sorted_by_rate_nth_less [OF assms] by (simp add: length_set_completion_rate_ranks)
  have "completion_rate_rank (rank_leaderboard lb ! k) = completion_rate_rank (?s1 ! (?br ! k))"
    using execution_count_ranks_keep [OF r] by (simp add: rank_leaderboard_nth [OF assms])
  also have "\<dots> = 1 + k"
    using nth_completion_rate_ranks [of ?br lb k 1] assms sorted_by_rate_perm [of lb] by simp
  finally show ?thesis .
qed

lemma rank_leaderboard_stats:
  assumes "k < length lb"
  shows "avg_completion_rate (rank_leaderboard lb ! k) = avg_completion_rate (lb ! (sorted_by_rate lb ! k))"
    and "le_total_executions (rank_leaderboard lb ! k) = le_total_executions (lb ! (sorted_by_rate lb ! k))"
    and "le_user_id (rank_leaderboard lb ! k) = le_user_id (lb ! (sorted_by_rate lb ! k))"
    and "last_execution_date (rank_leaderboard lb ! k) = last_execution_date (lb ! (sorted_by_rate lb ! k))"
proof -
  let ?br = "sorted_by_rate lb"
  let ?s1 = "set_completion_rate_ranks 1 ?br lb"
  have r0: "?br ! k < length lb" using sorted_by_rate_nth_less [OF assms] .
  have r: "?br ! k < length ?s1"
    using r0 by (simp add: length_set_completion_rate_ranks)
  note a = execution_count_ranks_keep [OF r] completion_rate_ranks_keep [OF r0, of 1 ?br]
  show "avg_completion_rate (rank_leaderboard lb ! k) = avg_completion_rate (lb ! (sorted_by_rate lb ! k))"
    using a by (simp add: rank_leaderboard_nth [OF assms])
  show "le_total_executions (rank_leaderboard lb ! k) = le_total_executions (lb ! (sorted_by_rate lb ! k))"
    using a by (simp add: rank_leaderboard_nth [OF assms])
  show "le_user_id (rank_leaderboard lb ! k) = le_user_id (lb ! (sorted_by_rate lb ! k))"
    using a by (simp add: rank_leaderboard_nth [OF assms])
  show "last_execution_date (rank_leaderboard lb ! k) = last_execution_date (lb ! (sorted_by_rate lb ! k))"
    using a by (simp add: rank_leaderboard_nth [OF assms])
qed

lemma rank_leaderboard_rate_ranks:
  "map completion_rate_rank (rank_leaderboard lb) = [1..<length lb + 1]"
proof -
  have "map completion_rate_rank (rank_leaderboard lb) = map Suc [0..<length lb]"
    by (rule nth_equalityI)
       (simp_all add: rank_leaderboard_length rank_leaderboard_completion_rate_rank)
  also have "\<dots> = [1..<length lb + 1]"
    using map_Suc_upt [of 0 "length lb"] by simp
  finally show ?thesis .
qed

lemma rank_leaderboard_sorted:
  "sorted_wrt (\<lambda>a b. b \<le> a) (map avg_completion_rate (rank_leaderboard lb))"
proof -
  have eq: "map avg_completion_rate (rank_leaderboard lb) =
            map (\<lambda>r. avg_completion_rate (lb ! r)) (sorted_by_rate lb)"
    by (rule nth_equalityI)
       (simp_all add: rank_leaderboard_length sorted_by_rate_perm rank_leaderboard_stats)
  have "sorted (map (\<lambda>r. - avg_completion_rate (lb ! r)) (sorted_by_rate lb))"
    by (rule sorted_by_rate_sorted)
  then have "sorted_wrt (\<lambda>a b. b \<le> a) (map (\<lambda>r. avg_completion_rate (lb ! r)) (sorted_by_rate lb))"
    by (simp add: sorted_wrt_map)
  then show ?thesis by (simp only: eq)
qed


lemma sorted_by_count_nth_less:
  "k < length lb \<Longrightarrow> sorted_by_count lb ! k < length lb"
proof -
  assume "k < length lb"
  then have "sorted_by_count lb ! k \<in> set (sorted_by_count lb)"
    using nth_mem [of k "sorted_by_count lb"] sorted_by_count_perm [of lb] by simp
  then show ?thesis using sorted_by_count_perm [of lb] by simp
qed

text \<open>
  The execution count rank of the entry a reference points to.
\<close>

lemma count_rank_at:
  assumes "j < length lb"
  defines "s1 \<equiv> set_completion_rate_ranks 1 (sorted_by_rate lb) lb"
  defines "s2 \<equiv> set_execution_count_ranks 1 (sorted_by_count s1) s1"
  shows "\<exists>k < length lb. sorted_by_count s1 ! k = j \<and> execution_count_rank (s2 ! j) = 1 + k"
proof -
  have len: "length s1 = length lb"
    by (simp add: s1_def length_set_completion_rate_ranks)
  have perm: "distinct (sorted_by_count s1)" "set (sorted_by_count s1) = {0..<length lb}"
    "length (sorted_by_count s1) = length lb"
    using sorted_by_count_perm [of s1] len by simp_all
  from assms(1) perm(2) have "j \<in> set (sorted_by_count s1)" by simp
  then obtain k where k: "k < length (sorted_by_count s1)" "sorted_by_count s1 ! k = j"
    by (auto simp: in_set_conv_nth)
  have "execution_count_rank (s2 ! (sorted_by_count s1 ! k)) = 1 + k"
    unfolding s2_def
    using nth_execution_count_ranks [of "sorted_by_count s1" s1 k 1] perm k(1) len by simp
  then show ?thesis using k perm(3) by auto
qed

lemma count_rank_of_ref:
  assumes "k < length lb"
  defines "s1 \<equiv> set_completion_rate_ranks 1 (sorted_by_rate lb) lb"
  defines "s2 \<equiv> set_execution_count_ranks 1 (sorted_by_count s1) s1"
  shows "execution_count_rank (s2 ! (sorted_by_count s1 ! k)) = 1 + k"
proof -
  have len: "length s1 = length lb"
    by (simp add: s1_def length_set_completion_rate_ranks)
  show ?thesis
    unfolding s2_def
    using nth_execution_count_ranks [of "sorted_by_count s1" s1 k 1]
          sorted_by_count_perm [of s1] len assms(1) by simp
qed

lemma rank_leaderboard_count_ranks:
  "distinct (map execution_count_rank (rank_leaderboard lb))
   \<and> set (map execution_count_rank (rank_leaderboard lb)) = {1..length lb}"
proof -
  define s1 where "s1 = set_completion_rate_ranks 1 (sorted_by_rate lb) lb"
  define s2 where "s2 = set_execution_count_ranks 1 (sorted_by_count s1) s1"
  define h where "h = (\<lambda>r. execution_count_rank (s2 ! r))"
  have res: "map execution_count_rank (rank_leaderboard lb) = map h (sorted_by_rate lb)"
    by (simp add: rank_leaderboard_def Let_def h_def s1_def s2_def)
  have at: "\<exists>k < length lb. sorted_by_count s1 ! k = j \<and> h j = 1 + k" if "j < length lb" for j
    using count_rank_at [OF that] by (simp add: h_def s1_def s2_def)
  have of_ref: "h (sorted_by_count s1 ! k) = 1 + k" if "k < length lb" for k
    using count_rank_of_ref [OF that] by (simp add: h_def s1_def s2_def)
  have len: "length s1 = length lb"
    by (simp add: s1_def length_set_completion_rate_ranks)
  have inj: "inj_on h {0..<length lb}"
  proof (rule inj_onI)
    fix j j' assume a: "j \<in> {0..<length lb}" "j' \<in> {0..<length lb}" "h j = h j'"
    from a(1) at [of j] obtain k where k: "sorted_by_count s1 ! k = j" "h j = 1 + k" by auto
    from a(2) at [of j'] obtain k' where k': "sorted_by_count s1 ! k' = j'" "h j' = 1 + k'" by auto
    from a(3) k(2) k'(2) have "k = k'" by simp
    then show "j = j'" using k(1) k'(1) by simp
  qed
  have img: "h ` {0..<length lb} = {1..length lb}"
  proof (rule set_eqI)
    fix m
    show "m \<in> h ` {0..<length lb} \<longleftrightarrow> m \<in> {1..length lb}"
    proof
      assume "m \<in> h ` {0..<length lb}"
      then obtain j where j: "j < length lb" "m = h j" by auto
      from at [OF j(1)] j(2) show "m \<in> {1..length lb}" by auto
    next
      assume m: "m \<in> {1..length lb}"
      then have k: "m - 1 < length lb" by auto
      have "sorted_by_count s1 ! (m - 1) < length lb"
        using sorted_by_count_nth_less [of "m - 1" s1] k len by simp
      moreover have "h (sorted_by_count s1 ! (m - 1)) = m"
        using of_ref [OF k] m by simp
      ultimately show "m \<in> h ` {0..<length lb}" by force
    qed
  qed
  have br: "distinct (sorted_by_rate lb)" "set (sorted_by_rate lb) = {0..<length lb}"
    using sorted_by_rate_perm [of lb] by simp_all
  have "distinct (map h (sorted_by_rate lb))"
    using br inj by (simp add: distinct_map)
  moreover have "set (map h (sorted_by_rate lb)) = {1..length lb}"
    using br img by simp
  ultimately show ?thesis by (simp only: res)
qed

lemma rank_leaderboard_count_order:
  assumes "i < length lb" "i' < length lb"
    and "execution_count_rank (rank_leaderboard lb ! i) < execution_count_rank (rank_leaderboard lb ! i')"
  shows "le_total_executions (rank_leaderboard lb ! i') \<le> le_total_executions (rank_leaderboard lb ! i)"
proof -
  define s1 where "s1 = set_completion_rate_ranks 1 (sorted_by_rate lb) lb"
  define s2 where "s2 = set_execution_count_ranks 1 (sorted_by_count s1) s1"
  have len: "length s1 = length lb"
    by (simp add: s1_def length_set_completion_rate_ranks)
  define j where "j = sorted_by_rate lb ! i"
  define j' where "j' = sorted_by_rate lb ! i'"
  have jl: "j < length lb" "j' < length lb"
    using sorted_by_rate_nth_less assms(1,2) by (simp_all add: j_def j'_def)
  have r: "rank_leaderboard lb ! i = s2 ! j" "rank_leaderboard lb ! i' = s2 ! j'"
    using rank_leaderboard_nth assms(1,2) by (simp_all add: s1_def s2_def j_def j'_def)
  from count_rank_at [OF jl(1)] obtain k where
    k: "k < length lb" "sorted_by_count s1 ! k = j" "execution_count_rank (s2 ! j) = 1 + k"
    by (auto simp: s1_def s2_def)
  from count_rank_at [OF jl(2)] obtain k' where
    k': "k' < length lb" "sorted_by_count s1 ! k' = j'" "execution_count_rank (s2 ! j') = 1 + k'"
    by (auto simp: s1_def s2_def)
  from assms(3) r k(3) k'(3) have lt: "k < k'" by simp
  have "sorted (map (\<lambda>r. - int (le_total_executions (s1 ! r))) (sorted_by_count s1))"
    by (rule sorted_by_count_sorted)
  then have "map (\<lambda>r. - int (le_total_executions (s1 ! r))) (sorted_by_count s1) ! k
          \<le> map (\<lambda>r. - int (le_total_executions (s1 ! r))) (sorted_by_count s1) ! k'"
    using lt k'(1) sorted_by_count_perm [of s1] len
    by (intro sorted_nth_mono) simp_all
  then have "le_total_executions (s1 ! j') \<le> le_total_executions (s1 ! j)"
    using k k' sorted_by_count_perm [of s1] len by simp
  moreover have "le_total_executions (s2 ! j) = le_total_executions (s1 ! j)"
    "le_total_executions (s2 ! j') = le_total_executions (s1 ! j')"
    using execution_count_ranks_keep [of j s1 1 "sorted_by_count s1"]
          execution_count_ranks_keep [of j' s1 1 "sorted_by_count s1"] jl len
    by (simp_all add: s2_def)
  ultimately show ?thesis using r by simp
qed


lemma dict_set_key_set: "fst ` set (dict_set k v d) = insert k (fst ` set d)"
proof (induction d)
  case Nil
  then show ?case by simp
next
  case (Cons p d)
  obtain k' v' where p: "p = (k', v')" by (cases p)
  show ?case
  proof (cases "k' = k")
    case True
    then show ?thesis using p by simp
  next
    case False
    then show ?thesis using p Cons.IH by (simp add: insert_commute)
  qed
qed

lemma dict_set_distinct: "distinct (map fst d) \<Longrightarrow> distinct (map fst (dict_set k v d))"
proof (induction d)
  case Nil
  then show ?case by simp
next
  case (Cons p d)
  obtain k' v' where p: "p = (k', v')" by (cases p)
  show ?case
  proof (cases "k' = k")
    case True
    then show ?thesis using Cons.prems p by simp
  next
    case False
    have "k' \<notin> fst ` set (dict_set k v d)"
      using Cons.prems p False by (simp add: dict_set_key_set)
    then show ?thesis using Cons p False by simp
  qed
qed

lemma add_members_keys:
  "add_members us ms d = Inr d' \<Longrightarrow> distinct (map fst d) \<Longrightarrow>
     distinct (map fst d') \<and> fst ` set d' = fst ` set d \<union> member_user_id ` set ms"
proof (induction us ms d rule: add_members.induct)
  case (1 us participants)
  then show ?case by simp
next
  case (2 us member rest participants)
  from "2.prems"(1) obtain u where u: "find (\<lambda>u. user_id u = member_user_id member) us = Some u"
    and rest: "add_members us rest
            (dict_set (member_user_id member) (display_name u, email u) participants) = Inr d'"
    by (auto split: option.splits)
  have "distinct (map fst (dict_set (member_user_id member) (display_name u, email u) participants))"
    using "2.prems"(2) by (rule dict_set_distinct)
  from "2.IH" [OF u rest this] have d: "distinct (map fst d')"
    and k: "fst ` set d' =
        fst ` set (dict_set (member_user_id member) (display_name u, email u) participants)
        \<union> member_user_id ` set rest"
    by simp_all
  from k have "fst ` set d' = fst ` set participants \<union> member_user_id ` set (member # rest)"
    by (simp only: dict_set_key_set) auto
  with d show ?case by simp
qed

lemma add_members_total:
  "\<forall>m \<in> set ms. \<exists>u \<in> set us. user_id u = member_user_id m \<Longrightarrow>
     \<exists>d'. add_members us ms d = Inr d'"
proof (induction us ms d rule: add_members.induct)
  case (1 us participants)
  then show ?case by simp
next
  case (2 us member rest participants)
  then have "\<exists>u \<in> set us. user_id u = member_user_id member" by simp
  then obtain u where u: "find (\<lambda>u. user_id u = member_user_id member) us = Some u"
    using find_Some_ex [of us "\<lambda>u. user_id u = member_user_id member"] by auto
  from "2.IH" [OF u] "2.prems" u show ?case by simp
qed

text \<open>
  What a leaderboard call that returns has computed.
\<close>

lemma get_plan_leaderboard_Inr:
  assumes "get_plan_leaderboard ar st pid = Inr lb"
  shows "\<exists>plan owner participants.
     find (\<lambda>p. plan_id p = pid) (plans st) = Some plan
     \<and> find (\<lambda>u. user_id u = plan_user_id plan) (users st) = Some owner
     \<and> add_members (users st) (get_plan_members st pid)
           [(plan_user_id plan, display_name owner, email owner)] = Inr participants
     \<and> participants \<noteq> []
     \<and> lb = rank_leaderboard
           (map (\<lambda>p. make_entry ar (filter (\<lambda>e. exercise_plan_id e = plan_id plan) (exercises st)) p
                       (participant_executions st pid (fst p))) participants)"
proof -
  from assms obtain plan where plan: "find (\<lambda>p. plan_id p = pid) (plans st) = Some plan"
    by (auto simp: get_plan_leaderboard_def split: option.splits)
  from assms plan obtain owner where
    owner: "find (\<lambda>u. user_id u = plan_user_id plan) (users st) = Some owner"
    by (auto simp: get_plan_leaderboard_def split: option.splits)
  from assms plan owner obtain participants where
    parts: "add_members (users st) (get_plan_members st pid)
           [(plan_user_id plan, display_name owner, email owner)] = Inr participants"
    by (auto simp: get_plan_leaderboard_def split: sum.splits)
  from add_members_keys [OF parts] have "plan_user_id plan \<in> fst ` set participants" by simp
  then have ne: "participants \<noteq> []" by auto
  from assms plan owner parts ne have
    "lb = rank_leaderboard
           (map (\<lambda>p. make_entry ar (filter (\<lambda>e. exercise_plan_id e = plan_id plan) (exercises st)) p
                       (participant_executions st pid (fst p))) participants)"
    by (simp add: get_plan_leaderboard_def Let_def)
  with plan owner parts ne show ?thesis by blast
qed

lemma get_plan_leaderboard_total:
  assumes "\<exists>p \<in> set (plans st). plan_id p = pid"
    and "\<forall>p \<in> set (plans st). \<exists>u \<in> set (users st). user_id u = plan_user_id p"
    and "\<forall>m \<in> set (members st). \<exists>u \<in> set (users st). user_id u = member_user_id m"
  shows "\<exists>lb. get_plan_leaderboard ar st pid = Inr lb"
proof -
  from assms(1) obtain plan where plan: "find (\<lambda>p. plan_id p = pid) (plans st) = Some plan"
    using find_Some_ex [of "plans st" "\<lambda>p. plan_id p = pid"] by auto
  from find_SomeD [OF plan] assms(2) have "\<exists>u \<in> set (users st). user_id u = plan_user_id plan"
    by auto
  then obtain owner where
    owner: "find (\<lambda>u. user_id u = plan_user_id plan) (users st) = Some owner"
    using find_Some_ex [of "users st" "\<lambda>u. user_id u = plan_user_id plan"] by auto
  have "\<forall>m \<in> set (get_plan_members st pid). \<exists>u \<in> set (users st). user_id u = member_user_id m"
    using assms(3) by (simp add: get_plan_members_def)
  from add_members_total [OF this] obtain participants where
    "add_members (users st) (get_plan_members st pid)
           [(plan_user_id plan, display_name owner, email owner)] = Inr participants"
    by blast
  with plan owner show ?thesis
    by (simp add: get_plan_leaderboard_def Let_def)
qed

lemma leaderboard_length:
  assumes "get_plan_leaderboard ar st pid = Inr lb"
    and "find (\<lambda>p. plan_id p = pid) (plans st) = Some plan"
  shows "length lb = card (participant_ids st plan)"
proof -
  from get_plan_leaderboard_Inr [OF assms(1)] assms(2) obtain owner participants where
    parts: "add_members (users st) (get_plan_members st pid)
           [(plan_user_id plan, display_name owner, email owner)] = Inr participants"
    and lb: "lb = rank_leaderboard
           (map (\<lambda>p. make_entry ar (filter (\<lambda>e. exercise_plan_id e = plan_id plan) (exercises st)) p
                       (participant_executions st pid (fst p))) participants)"
    by auto
  from find_SomeD [OF assms(2)] have pid: "plan_id plan = pid" by simp
  from add_members_keys [OF parts] have d: "distinct (map fst participants)"
    and k: "fst ` set participants = participant_ids st plan"
    by (simp_all add: participant_ids_def pid)
  have "length lb = length (map fst participants)"
    by (simp add: lb rank_leaderboard_length)
  also have "\<dots> = card (set (map fst participants))"
    using distinct_card [OF d] by simp
  also have "\<dots> = card (participant_ids st plan)"
    using k by simp
  finally show ?thesis .
qed


subsection \<open>The example leaderboard\<close>

lemmas league_defs = league_state_def carol_membership_def dave_membership_def run_45_def run_15_def run_skipped_def
  alice_run_def alice_rest_day_def bob_run_def carol_day_def

lemma league_executions:
  "participant_executions league_state 10 1 = [alice_rest_day, alice_run]"
  "participant_executions league_state 10 (Suc 0) = [alice_rest_day, alice_run]"
  "participant_executions league_state 10 2 = [bob_run]"
  "participant_executions league_state 10 3 = [carol_day 55 3, carol_day 54 2, carol_day 53 1]"
  "participant_executions league_state 10 4 = []"
  by (simp_all add: participant_executions_def league_defs example_defs)

lemma league_rates:
  "exercise_rate double_arith [morning_run] run_45 = 100"
  "exercise_rate double_arith [morning_run] run_15 = 50"
  "exercise_rate double_arith [morning_run] run_skipped = 0"
  by (simp_all add: exercise_rate_def find_exercise_def morning_run_def run_45_def run_15_def
        run_skipped_def truthy_def capped_rate_def double_eval)


lemma exercise_rates_loop_eq:
  "exercise_rates_loop ar exs xs acc = acc @ map (exercise_rate ar exs) xs"
  by (induction ar exs xs acc rule: exercise_rates_loop.induct) simp_all

lemma completion_rates_loop_eq:
  "completion_rates_loop ar exs execs acc =
     acc @ map (\<lambda>e. completion_rate ar exs (exercise_executions e))
               (filter (\<lambda>e. exercise_executions e \<noteq> []) execs)"
  by (induction ar exs execs acc rule: completion_rates_loop.induct)
     (simp_all add: exercise_rates_loop_eq Let_def completion_rate_eq average_or_zero_def)

lemma avg_rate_eq:
  "avg_rate ar exs execs =
     average_or_zero ar
       (map (\<lambda>e. completion_rate ar exs (exercise_executions e))
            (filter (\<lambda>e. exercise_executions e \<noteq> []) execs))"
  by (simp add: avg_rate_def completion_rates_loop_eq)

lemma league_avg_rates:
  "avg_rate double_arith [morning_run] [alice_rest_day, alice_run] = 100"
  "avg_rate double_arith [morning_run] [bob_run] = 50"
  "avg_rate double_arith [morning_run] [carol_day 55 3, carol_day 54 2, carol_day 53 1] = 0"
  by (simp_all add: avg_rate_eq completion_rate_eq average_or_zero_def league_rates
        alice_rest_day_def alice_run_def bob_run_def carol_day_def)
     (simp_all add: double_eval)

lemma league_round:
  "fl_round1 double_arith 100 = 100" "fl_round1 double_arith 50 = 50" "fl_round1 double_arith 0 = 0"
  by (simp_all add: double_eval)

lemma league_unranked:
  "map (\<lambda>p. make_entry double_arith [morning_run] p (participant_executions league_state 10 (fst p)))
       [(1, ''Alice'', ''alice@example.com''), (2, ''bob@example.com'', ''bob@example.com''),
        (3, ''Carol'', ''carol@example.com''),
         (4, ''dave@example.com'', ''dave@example.com'')]
   = map (\<lambda>e. e\<lparr>completion_rate_rank := 0, execution_count_rank := 0\<rparr>) league_table"
  by (simp add: make_entry_def league_executions league_avg_rates league_round league_table_def)
     (simp add: alice_rest_day_def bob_run_def carol_day_def)

lemma league_ranked:
  "rank_leaderboard (map (\<lambda>e. e\<lparr>completion_rate_rank := 0, execution_count_rank := 0\<rparr>) league_table)
   = league_table"
  by (simp add: rank_leaderboard_def sorted_by_rate_def sorted_by_count_def Let_def league_table_def)

lemma league_leaderboard:
  "get_plan_leaderboard double_arith league_state 10 = Inr league_table"
proof -
  have plan: "find (\<lambda>p. plan_id p = 10) (plans league_state) = Some morning_plan"
    by (simp add: league_state_def example_defs)
  have owner: "find (\<lambda>u. user_id u = plan_user_id morning_plan) (users league_state) = Some alice"
    by (simp add: league_state_def example_defs)
  have parts: "add_members (users league_state) (get_plan_members league_state 10)
       [(plan_user_id morning_plan, display_name alice, email alice)]
     = Inr [(1, ''Alice'', ''alice@example.com''), (2, ''bob@example.com'', ''bob@example.com''),
        (3, ''Carol'', ''carol@example.com''),
         (4, ''dave@example.com'', ''dave@example.com'')]"
    by (simp add: league_state_def example_defs carol_membership_def dave_membership_def
          get_plan_members_def display_name_def)
  have exs: "filter (\<lambda>e. exercise_plan_id e = plan_id morning_plan) (exercises league_state)
       = [morning_run]"
    by (simp add: league_state_def example_defs)
  have "get_plan_leaderboard double_arith league_state 10 =
      Inr (rank_leaderboard
        (map (\<lambda>p. make_entry double_arith [morning_run] p
                    (participant_executions league_state 10 (fst p)))
          [(1, ''Alice'', ''alice@example.com''), (2, ''bob@example.com'', ''bob@example.com''),
           (3, ''Carol'', ''carol@example.com''),
         (4, ''dave@example.com'', ''dave@example.com'')]))"
    unfolding get_plan_leaderboard_def
    by (simp add: plan owner parts exs Let_def del: list.map)
  then show ?thesis
    by (simp only: league_unranked league_ranked)
qed


lemma make_entry_fields:
  "le_user_id (make_entry ar exs p execs) = fst p"
  "le_total_executions (make_entry ar exs p execs) = length execs"
  "avg_completion_rate (make_entry ar exs p execs) =
     (if execs = [] then 0 else fl_round1 ar (avg_rate ar exs execs))"
  by (simp_all add: make_entry_def Let_def)

lemma leaderboard_entries:
  assumes "get_plan_leaderboard ar st pid = Inr lb"
    and "find (\<lambda>p. plan_id p = pid) (plans st) = Some plan"
  shows "le_user_id ` set lb = participant_ids st plan"
    and "\<forall>entry \<in> set lb.
           le_total_executions entry = length (participant_executions st pid (le_user_id entry))
           \<and> avg_completion_rate entry =
               (if participant_executions st pid (le_user_id entry) = [] then 0
                else fl_round1 ar
                  (avg_rate ar (filter (\<lambda>e. exercise_plan_id e = plan_id plan) (exercises st))
                     (participant_executions st pid (le_user_id entry))))"
proof -
  define exs where "exs = filter (\<lambda>e. exercise_plan_id e = plan_id plan) (exercises st)"
  from get_plan_leaderboard_Inr [OF assms(1)] assms(2) obtain owner participants where
    parts: "add_members (users st) (get_plan_members st pid)
           [(plan_user_id plan, display_name owner, email owner)] = Inr participants"
    and lb: "lb = rank_leaderboard
           (map (\<lambda>p. make_entry ar exs p (participant_executions st pid (fst p))) participants)"
    by (auto simp: exs_def)
  define L where
    "L = map (\<lambda>p. make_entry ar exs p (participant_executions st pid (fst p))) participants"
  have lbL: "lb = rank_leaderboard L" by (simp add: lb L_def)
  have len: "length lb = length L" "length L = length participants"
    by (simp_all add: lbL rank_leaderboard_length L_def)
  from find_SomeD [OF assms(2)] have pid: "plan_id plan = pid" by simp
  from add_members_keys [OF parts] have keys: "fst ` set participants = participant_ids st plan"
    by (simp add: participant_ids_def pid)
  have Lj: "L ! j = make_entry ar exs (participants ! j)
                      (participant_executions st pid (fst (participants ! j)))"
    if "j < length participants" for j
    using that by (simp add: L_def)
  have at: "le_user_id (lb ! k) = fst (participants ! (sorted_by_rate L ! k))
      \<and> le_total_executions (lb ! k) =
          length (participant_executions st pid (le_user_id (lb ! k)))
      \<and> avg_completion_rate (lb ! k) =
          (if participant_executions st pid (le_user_id (lb ! k)) = [] then 0
           else fl_round1 ar (avg_rate ar exs (participant_executions st pid (le_user_id (lb ! k)))))"
    if "k < length lb" for k
  proof -
    have k: "k < length L" using that len by simp
    have j: "sorted_by_rate L ! k < length participants"
      using sorted_by_rate_nth_less [OF k] len by simp
    show ?thesis
      using rank_leaderboard_stats [OF k] Lj [OF j]
      by (simp add: lbL make_entry_fields)
  qed
  show "le_user_id ` set lb = participant_ids st plan"
  proof (rule set_eqI)
    fix u
    show "u \<in> le_user_id ` set lb \<longleftrightarrow> u \<in> participant_ids st plan"
    proof
      assume "u \<in> le_user_id ` set lb"
      then obtain k where k: "k < length lb" "u = le_user_id (lb ! k)"
        by (auto simp: in_set_conv_nth)
      have "sorted_by_rate L ! k < length participants"
        using sorted_by_rate_nth_less [of k L] k(1) len by simp
      then have "fst (participants ! (sorted_by_rate L ! k)) \<in> fst ` set participants"
        by simp
      then show "u \<in> participant_ids st plan"
        using at [OF k(1)] k(2) keys by simp
    next
      assume "u \<in> participant_ids st plan"
      then have "u \<in> fst ` set participants" using keys by simp
      then obtain j where j: "j < length participants" "u = fst (participants ! j)"
        by (auto simp: in_set_conv_nth)
      then have "j \<in> set (sorted_by_rate L)"
        using sorted_by_rate_perm [of L] len by simp
      then obtain k where k: "k < length (sorted_by_rate L)" "sorted_by_rate L ! k = j"
        by (auto simp: in_set_conv_nth)
      then have kl: "k < length lb" using sorted_by_rate_perm [of L] len by simp
      have "le_user_id (lb ! k) = u" using at [OF kl] k(2) j(2) by simp
      then show "u \<in> le_user_id ` set lb" using kl by force
    qed
  qed
  show "\<forall>entry \<in> set lb.
           le_total_executions entry = length (participant_executions st pid (le_user_id entry))
           \<and> avg_completion_rate entry =
               (if participant_executions st pid (le_user_id entry) = [] then 0
                else fl_round1 ar
                  (avg_rate ar (filter (\<lambda>e. exercise_plan_id e = plan_id plan) (exercises st))
                     (participant_executions st pid (le_user_id entry))))"
  proof
    fix entry assume "entry \<in> set lb"
    then obtain k where k: "k < length lb" "entry = lb ! k"
      by (auto simp: in_set_conv_nth)
    from at [OF k(1)] show
      "le_total_executions entry = length (participant_executions st pid (le_user_id entry))
           \<and> avg_completion_rate entry =
               (if participant_executions st pid (le_user_id entry) = [] then 0
                else fl_round1 ar
                  (avg_rate ar (filter (\<lambda>e. exercise_plan_id e = plan_id plan) (exercises st))
                     (participant_executions st pid (le_user_id entry))))"
      by (simp add: k(2) exs_def)
  qed
qed

lemma leaderboard_rank_facts:
  assumes "get_plan_leaderboard ar st pid = Inr lb"
  shows "map completion_rate_rank lb = [1..<length lb + 1]"
    and "sorted_wrt (\<lambda>a b. b \<le> a) (map avg_completion_rate lb)"
    and "distinct (map execution_count_rank lb)"
    and "set (map execution_count_rank lb) = {1..length lb}"
    and "\<forall>i < length lb. \<forall>j < length lb.
           execution_count_rank (lb ! i) < execution_count_rank (lb ! j) \<longrightarrow>
           le_total_executions (lb ! j) \<le> le_total_executions (lb ! i)"
    and "\<forall>i < length lb. \<forall>j < length lb.
           completion_rate_rank (lb ! i) < completion_rate_rank (lb ! j) \<longrightarrow>
           avg_completion_rate (lb ! j) \<le> avg_completion_rate (lb ! i)"
proof -
  from get_plan_leaderboard_Inr [OF assms] obtain L where lb: "lb = rank_leaderboard L"
    by blast
  have len: "length lb = length L" by (simp add: lb rank_leaderboard_length)
  show "map completion_rate_rank lb = [1..<length lb + 1]"
    using rank_leaderboard_rate_ranks [of L] by (simp add: lb rank_leaderboard_length)
  show srt: "sorted_wrt (\<lambda>a b. b \<le> a) (map avg_completion_rate lb)"
    using rank_leaderboard_sorted [of L] by (simp add: lb)
  show "distinct (map execution_count_rank lb)"
    using rank_leaderboard_count_ranks [of L] by (simp add: lb)
  show "set (map execution_count_rank lb) = {1..length lb}"
    using rank_leaderboard_count_ranks [of L] by (simp add: lb rank_leaderboard_length)
  show "\<forall>i < length lb. \<forall>j < length lb.
           execution_count_rank (lb ! i) < execution_count_rank (lb ! j) \<longrightarrow>
           le_total_executions (lb ! j) \<le> le_total_executions (lb ! i)"
    using rank_leaderboard_count_order [of _ L] len by (simp add: lb)
  show "\<forall>i < length lb. \<forall>j < length lb.
           completion_rate_rank (lb ! i) < completion_rate_rank (lb ! j) \<longrightarrow>
           avg_completion_rate (lb ! j) \<le> avg_completion_rate (lb ! i)"
  proof (intro allI impI)
    fix i j assume i: "i < length lb" and j: "j < length lb"
      and lt: "completion_rate_rank (lb ! i) < completion_rate_rank (lb ! j)"
    have "completion_rate_rank (lb ! i) = 1 + i" "completion_rate_rank (lb ! j) = 1 + j"
      using rank_leaderboard_completion_rate_rank [of _ L] i j len by (simp_all add: lb)
    with lt have "i < j" by simp
    then have "map avg_completion_rate lb ! j \<le> map avg_completion_rate lb ! i"
      using sorted_wrt_nth_less [OF srt, of i j] j by simp
    then show "avg_completion_rate (lb ! j) \<le> avg_completion_rate (lb ! i)"
      using i j by simp
  qed
qed


lemma league_plan: "find (\<lambda>p. plan_id p = 10) (plans league_state) = Some morning_plan"
  by (simp add: league_state_def example_defs)


lemma league_participants: "participant_ids league_state morning_plan = {1, 2, 3, 4}"
  by (simp add: participant_ids_def get_plan_members_def league_defs example_defs)

lemma league_columns:
  "map le_user_id league_table = [1, 2, 3, 4]"
  "map le_total_executions league_table = [2, 1, 3, 0]"
  "map avg_completion_rate league_table = [100, 50, 0, 0]"
  "map completion_rate_rank league_table = [1, 2, 3, 4]"
  "map execution_count_rank league_table = [2, 3, 1, 4]"
  by (simp_all add: league_table_def)

lemma league_foreign_keys:
  "\<exists>p \<in> set (plans league_state). plan_id p = 10"
  "\<forall>p \<in> set (plans league_state). \<exists>u \<in> set (users league_state). user_id u = plan_user_id p"
  "\<forall>m \<in> set (members league_state). \<exists>u \<in> set (users league_state). user_id u = member_user_id m"
  by (simp_all add: league_defs example_defs)

text \<open>
  C8.  The leaderboard of a plan whose owner and members are users is returned, with one
  entry per participant (the owner and the members), N of them.  The completion rate ranks
  are 1, ..., N down the returned list, which is in descending order of average completion
  rate; the execution count ranks are distinct and are the numbers 1..N, and an entry with a
  smaller execution count rank has at least as many executions; likewise an entry with a
  smaller completion rate rank has at least as high an average.
\<close>

theorem leaderboard_ranks:
  "((\<exists>p \<in> set (plans st). plan_id p = pid)
      \<and> (\<forall>p \<in> set (plans st). \<exists>u \<in> set (users st). user_id u = plan_user_id p)
      \<and> (\<forall>m \<in> set (members st). \<exists>u \<in> set (users st). user_id u = member_user_id m)
     \<longrightarrow> (\<exists>lb. get_plan_leaderboard ar st pid = Inr lb))
   \<and> (get_plan_leaderboard ar st pid = Inr lb
        \<and> find (\<lambda>p. plan_id p = pid) (plans st) = Some plan \<longrightarrow>
      le_user_id ` set lb = participant_ids st plan
      \<and> length lb = card (participant_ids st plan)
      \<and> map completion_rate_rank lb = [1..<length lb + 1]
      \<and> sorted_wrt (\<lambda>a b. b \<le> a) (map avg_completion_rate lb)
      \<and> distinct (map execution_count_rank lb)
      \<and> set (map execution_count_rank lb) = {1..length lb}
      \<and> (\<forall>a \<in> set lb. \<forall>b \<in> set lb.
            execution_count_rank a < execution_count_rank b \<longrightarrow>
            le_total_executions b \<le> le_total_executions a)
      \<and> (\<forall>a \<in> set lb. \<forall>b \<in> set lb.
            completion_rate_rank a < completion_rate_rank b \<longrightarrow>
            avg_completion_rate b \<le> avg_completion_rate a))"
proof (intro conjI impI)
  assume "(\<exists>p \<in> set (plans st). plan_id p = pid)
      \<and> (\<forall>p \<in> set (plans st). \<exists>u \<in> set (users st). user_id u = plan_user_id p)
      \<and> (\<forall>m \<in> set (members st). \<exists>u \<in> set (users st). user_id u = member_user_id m)"
  then show "\<exists>lb. get_plan_leaderboard ar st pid = Inr lb"
    using get_plan_leaderboard_total [of st pid ar] by blast
next
  assume a: "get_plan_leaderboard ar st pid = Inr lb
        \<and> find (\<lambda>p. plan_id p = pid) (plans st) = Some plan"
  then have lb: "get_plan_leaderboard ar st pid = Inr lb"
    and plan: "find (\<lambda>p. plan_id p = pid) (plans st) = Some plan"
    by simp_all
  note facts = leaderboard_rank_facts [OF lb]
  show "le_user_id ` set lb = participant_ids st plan"
    by (rule leaderboard_entries(1) [OF lb plan])
  show "length lb = card (participant_ids st plan)"
    by (rule leaderboard_length [OF lb plan])
  show "map completion_rate_rank lb = [1..<length lb + 1]" by (rule facts(1))
  show "sorted_wrt (\<lambda>a b. b \<le> a) (map avg_completion_rate lb)" by (rule facts(2))
  show "distinct (map execution_count_rank lb)" by (rule facts(3))
  show "set (map execution_count_rank lb) = {1..length lb}" by (rule facts(4))
  show "\<forall>a \<in> set lb. \<forall>b \<in> set lb.
            execution_count_rank a < execution_count_rank b \<longrightarrow>
            le_total_executions b \<le> le_total_executions a"
  proof (intro ballI impI)
    fix a b
    assume "a \<in> set lb" "b \<in> set lb"
      and lt: "execution_count_rank a < execution_count_rank b"
    then obtain i j where "i < length lb" "a = lb ! i" "j < length lb" "b = lb ! j"
      unfolding in_set_conv_nth by blast
    with facts(5) lt show "le_total_executions b \<le> le_total_executions a" by simp
  qed
  show "\<forall>a \<in> set lb. \<forall>b \<in> set lb.
            completion_rate_rank a < completion_rate_rank b \<longrightarrow>
            avg_completion_rate b \<le> avg_completion_rate a"
  proof (intro ballI impI)
    fix a b
    assume "a \<in> set lb" "b \<in> set lb"
      and lt: "completion_rate_rank a < completion_rate_rank b"
    then obtain i j where "i < length lb" "a = lb ! i" "j < length lb" "b = lb ! j"
      unfolding in_set_conv_nth by blast
    with facts(6) lt show "avg_completion_rate b \<le> avg_completion_rate a" by simp
  qed
qed

theorem leaderboard_ranks_witness:
  "get_plan_leaderboard double_arith league_state 10 = Inr league_table
   \<and> find (\<lambda>p. plan_id p = 10) (plans league_state) = Some morning_plan
   \<and> participant_ids league_state morning_plan = {1, 2, 3, 4}
   \<and> le_user_id ` set league_table = participant_ids league_state morning_plan
   \<and> length league_table = card (participant_ids league_state morning_plan)
   \<and> map completion_rate_rank league_table = [1..<length league_table + 1]
   \<and> sorted_wrt (\<lambda>a b. b \<le> a) (map avg_completion_rate league_table)
   \<and> distinct (map execution_count_rank league_table)
   \<and> set (map execution_count_rank league_table) = {1..length league_table}
   \<and> map le_user_id league_table = [1, 2, 3, 4]
   \<and> map avg_completion_rate league_table = [100, 50, 0, 0]
   \<and> map completion_rate_rank league_table = [1, 2, 3, 4]
   \<and> map le_total_executions league_table = [2, 1, 3, 0]
   \<and> map execution_count_rank league_table = [2, 3, 1, 4]"
proof -
  note w = leaderboard_ranks [where ar = double_arith and st = league_state and pid = 10
      and lb = league_table and plan = morning_plan]
  have "\<exists>lb. get_plan_leaderboard double_arith league_state 10 = Inr lb"
    by (rule w [THEN conjunct1, THEN mp]) (intro conjI league_foreign_keys)
  note r = w [THEN conjunct2, THEN mp, OF conjI [OF league_leaderboard league_plan]]
  note r1 = r [THEN conjunct1]
  note r2 = r [THEN conjunct2, THEN conjunct1]
  note r3 = r [THEN conjunct2, THEN conjunct2, THEN conjunct1]
  note r4 = r [THEN conjunct2, THEN conjunct2, THEN conjunct2, THEN conjunct1]
  note r5 = r [THEN conjunct2, THEN conjunct2, THEN conjunct2, THEN conjunct2, THEN conjunct1]
  note r6 = r [THEN conjunct2, THEN conjunct2, THEN conjunct2, THEN conjunct2, THEN conjunct2,
      THEN conjunct1]
  show ?thesis
    by (intro conjI league_leaderboard league_plan league_participants league_columns
          r1 r2 r3 r4 r5 r6)
qed










end
